theory Spec2Isabelle
  imports Complex_Main "HOL-Library.Multiset" "HOL-Library.Char_ord" "HOL-Library.List_Lexorder"
begin

section \<open>Exceptions\<close>

text \<open>
  Every \<^verbatim>\<open>raise\<close> of \<^verbatim>\<open>satpy/readers/__init__.py\<close> is a value of \<open>error\<close>: the
  constructor is the Python exception class and the string is the fixed part of the
  message (formatted arguments are left out).  \<open>External\<close> stands for an exception that
  is raised inside a collaborator the module calls (numpy, a per-file reader subclass)
  and merely passes through the code modelled here.
\<close>

datatype error =
    ValueError string
  | TypeError string
  | KeyError string
  | IndexError string
  | NotImplementedError string
  | External string

definition bind_err :: "error + 'a \<Rightarrow> ('a \<Rightarrow> error + 'b) \<Rightarrow> error + 'b" where
  "bind_err m f = (case m of Inl e \<Rightarrow> Inl e | Inr x \<Rightarrow> f x)"

section \<open>Python values\<close>

text \<open>
  The fields of a \<^verbatim>\<open>DatasetID\<close> and the entries of a metadata dictionary are dynamically
  typed.  \<open>pyval\<close> has the values they take: \<^verbatim>\<open>None\<close>, \<^verbatim>\<open>int\<close>, \<^verbatim>\<open>float\<close>, \<^verbatim>\<open>str\<close>,
  \<^verbatim>\<open>tuple\<close> and \<^verbatim>\<open>list\<close>.  A float is the real number it denotes (no NaN, no
  infinities); equality and order of floats are exact, float arithmetic rounds (see
  \<open>abs_diff\<close>).
\<close>

datatype pyval =
    PNone
  | PInt int
  | PFloat real
  | PStr string
  | PTuple "pyval list"
  | PList "pyval list"

datatype pytype = NoneType | IntType | FloatType | StrType | TupleType | ListType

text \<open>\<^verbatim>\<open>type(a)\<close>\<close>

fun py_type :: "pyval \<Rightarrow> pytype" where
  "py_type PNone = NoneType"
| "py_type (PInt i) = IntType"
| "py_type (PFloat x) = FloatType"
| "py_type (PStr s) = StrType"
| "py_type (PTuple xs) = TupleType"
| "py_type (PList xs) = ListType"

text \<open>\<^verbatim>\<open>isinstance(a, numbers.Number)\<close> and \<^verbatim>\<open>isinstance(a, (str, six.text_type))\<close>\<close>

fun is_number :: "pyval \<Rightarrow> bool" where
  "is_number (PInt i) = True"
| "is_number (PFloat x) = True"
| "is_number _ = False"

fun is_str :: "pyval \<Rightarrow> bool" where
  "is_str (PStr s) = True"
| "is_str _ = False"

text \<open>
  \<^verbatim>\<open>a == b\<close>: numbers are compared by value across \<^verbatim>\<open>int\<close> and \<^verbatim>\<open>float\<close>, sequences
  of the same kind item by item, values of unrelated types are unequal.
\<close>

fun py_eq :: "pyval \<Rightarrow> pyval \<Rightarrow> bool"
  and py_eq_list :: "pyval list \<Rightarrow> pyval list \<Rightarrow> bool" where
  "py_eq PNone PNone = True"
| "py_eq (PInt i) (PInt j) = (i = j)"
| "py_eq (PInt i) (PFloat y) = (of_int i = y)"
| "py_eq (PFloat x) (PInt j) = (x = of_int j)"
| "py_eq (PFloat x) (PFloat y) = (x = y)"
| "py_eq (PStr s) (PStr t) = (s = t)"
| "py_eq (PTuple xs) (PTuple ys) = py_eq_list xs ys"
| "py_eq (PList xs) (PList ys) = py_eq_list xs ys"
| "py_eq _ _ = False"
| "py_eq_list [] [] = True"
| "py_eq_list (x # xs) (y # ys) = (py_eq x y \<and> py_eq_list xs ys)"
| "py_eq_list _ _ = False"

text \<open>
  \<^verbatim>\<open>a <= b\<close> with the semantics of Python 3: numbers by value, strings and sequences of
  the same kind lexicographically, and \<^verbatim>\<open>TypeError\<close> for every other pair of types.
  (Python 2 orders such pairs by type name instead of raising.)
\<close>

fun py_le :: "pyval \<Rightarrow> pyval \<Rightarrow> error + bool"
  and py_le_list :: "pyval list \<Rightarrow> pyval list \<Rightarrow> error + bool" where
  "py_le (PInt i) (PInt j) = Inr (i \<le> j)"
| "py_le (PInt i) (PFloat y) = Inr (of_int i \<le> y)"
| "py_le (PFloat x) (PInt j) = Inr (x \<le> of_int j)"
| "py_le (PFloat x) (PFloat y) = Inr (x \<le> y)"
| "py_le (PStr s) (PStr t) = Inr (s \<le> t)"
| "py_le (PTuple xs) (PTuple ys) = py_le_list xs ys"
| "py_le (PList xs) (PList ys) = py_le_list xs ys"
| "py_le _ _ = Inl (TypeError ''unorderable types'')"
| "py_le_list [] ys = Inr True"
| "py_le_list (x # xs) [] = Inr False"
| "py_le_list (x # xs) (y # ys) = (if py_eq x y then py_le_list xs ys else py_le x y)"

text \<open>The chained comparison \<^verbatim>\<open>lo <= b <= hi\<close>: the second test runs only if the first holds.\<close>

definition chain_le :: "pyval \<Rightarrow> pyval \<Rightarrow> pyval \<Rightarrow> error + bool" where
  "chain_le lo b hi =
     (case py_le lo b of
        Inl e \<Rightarrow> Inl e
      | Inr ok \<Rightarrow> if ok then py_le b hi else Inr False)"

text \<open>\<^verbatim>\<open>x in xs\<close> for a list or tuple \<open>xs\<close>\<close>

definition py_in :: "pyval \<Rightarrow> pyval list \<Rightarrow> bool" where
  "py_in x xs = list_ex (py_eq x) xs"

text \<open>Truth value of an object in a condition.\<close>

fun truthy :: "pyval \<Rightarrow> bool" where
  "truthy PNone = False"
| "truthy (PInt i) = (i \<noteq> 0)"
| "truthy (PFloat x) = (x \<noteq> 0)"
| "truthy (PStr s) = (s \<noteq> [])"
| "truthy (PTuple xs) = (xs \<noteq> [])"
| "truthy (PList xs) = (xs \<noteq> [])"

text \<open>\<^verbatim>\<open>a[i]\<close> for a non-negative constant index\<close>

fun py_index :: "pyval \<Rightarrow> nat \<Rightarrow> error + pyval" where
  "py_index (PTuple xs) i =
     (if i < length xs then Inr (xs ! i) else Inl (IndexError ''tuple index out of range''))"
| "py_index (PList xs) i =
     (if i < length xs then Inr (xs ! i) else Inl (IndexError ''list index out of range''))"
| "py_index (PStr s) i =
     (if i < length s then Inr (PStr [s ! i]) else Inl (IndexError ''string index out of range''))"
| "py_index _ i = Inl (TypeError ''object is not subscriptable'')"

text \<open>A tuple is hashable iff its items are; a list never is.\<close>

fun hashable :: "pyval \<Rightarrow> bool"
  and hashable_list :: "pyval list \<Rightarrow> bool" where
  "hashable (PList xs) = False"
| "hashable (PTuple xs) = hashable_list xs"
| "hashable _ = True"
| "hashable_list [] = True"
| "hashable_list (x # xs) = (hashable x \<and> hashable_list xs)"

section \<open>Composite keys: \<^verbatim>\<open>DatasetID\<close>\<close>

text \<open>
  \<^verbatim>\<open>DatasetID = namedtuple("Dataset", "name wavelength resolution polarization calibration")\<close>
  with all defaults \<^verbatim>\<open>None\<close>.
\<close>

record DatasetID =
  name :: pyval
  wavelength :: pyval
  resolution :: pyval
  polarization :: pyval
  calibration :: pyval

text \<open>Equality of two keys as dictionary keys: tuple equality, field by field.\<close>

definition id_eq :: "DatasetID \<Rightarrow> DatasetID \<Rightarrow> bool" where
  "id_eq a b =
     (py_eq (name a) (name b) \<and> py_eq (wavelength a) (wavelength b)
      \<and> py_eq (resolution a) (resolution b) \<and> py_eq (polarization a) (polarization b)
      \<and> py_eq (calibration a) (calibration b))"

definition id_hashable :: "DatasetID \<Rightarrow> bool" where
  "id_hashable a =
     (hashable (name a) \<and> hashable (wavelength a) \<and> hashable (resolution a)
      \<and> hashable (polarization a) \<and> hashable (calibration a))"

text \<open>A key argument is either a \<^verbatim>\<open>DatasetID\<close> instance or any other object.\<close>

datatype key = KId DatasetID | KVal pyval

section \<open>\<^verbatim>\<open>DatasetDict\<close>\<close>

text \<open>\<^verbatim>\<open>isinstance(a, (list, tuple)) and len(a) == 3\<close>\<close>

fun is_seq3 :: "pyval \<Rightarrow> bool" where
  "is_seq3 (PTuple xs) = (length xs = 3)"
| "is_seq3 (PList xs) = (length xs = 3)"
| "is_seq3 _ = False"

fun seq_items :: "pyval \<Rightarrow> pyval list" where
  "seq_items (PTuple xs) = xs"
| "seq_items (PList xs) = xs"
| "seq_items _ = []"

definition wl_match :: "pyval \<Rightarrow> pyval \<Rightarrow> error + bool" where
  "wl_match a b =
     (if py_type a = py_type b then Inr (py_eq a b)
      else if is_seq3 a then chain_le (seq_items a ! 0) b (seq_items a ! 2)
      else if is_seq3 b then chain_le (seq_items b ! 0) a (seq_items b ! 2)
      else Inl (ValueError ''Can only compare wavelengths of length 1 or 3''))"

definition name_match :: "pyval \<Rightarrow> pyval \<Rightarrow> bool" where
  "name_match a b = py_eq a b"

text \<open>
  A list comprehension \<^verbatim>\<open>[k for k in keys if guard(k) and test(k)]\<close> whose test may
  raise: the first exception, in iteration order, ends the comprehension.
\<close>

fun filter_err :: "('a \<Rightarrow> error + bool) \<Rightarrow> 'a list \<Rightarrow> error + 'a list" where
  "filter_err p [] = Inr []"
| "filter_err p (x # xs) =
     (case p x of
        Inl e \<Rightarrow> Inl e
      | Inr keep \<Rightarrow>
          (case filter_err p xs of
             Inl e \<Rightarrow> Inl e
           | Inr kept \<Rightarrow> Inr (if keep then x # kept else kept)))"

text \<open>
  \<^verbatim>\<open>get_keys_by_datasetid\<close>: one filter per field of \<^verbatim>\<open>DATASET_KEYS\<close>, in that order,
  skipped where the query's field is \<^verbatim>\<open>None\<close>.
\<close>

definition filter_field :: "(DatasetID \<Rightarrow> pyval) \<Rightarrow> DatasetID \<Rightarrow> DatasetID list \<Rightarrow> DatasetID list" where
  "filter_field field did keys =
     (if field did \<noteq> PNone
      then filter (\<lambda>k. field k \<noteq> PNone \<and> py_eq (field k) (field did)) keys
      else keys)"

definition filter_wavelength :: "DatasetID \<Rightarrow> DatasetID list \<Rightarrow> error + DatasetID list" where
  "filter_wavelength did keys =
     (if wavelength did \<noteq> PNone
      then filter_err (\<lambda>k. if wavelength k \<noteq> PNone then wl_match (wavelength k) (wavelength did)
                           else Inr False) keys
      else Inr keys)"

definition get_keys_by_datasetid :: "DatasetID list \<Rightarrow> DatasetID \<Rightarrow> error + DatasetID list" where
  "get_keys_by_datasetid keys did =
     bind_err (filter_wavelength did (filter_field name did keys))
       (\<lambda>keys2. Inr (filter_field calibration did
                       (filter_field polarization did
                          (filter_field resolution did keys2))))"

text \<open>The loop of \<^verbatim>\<open>get_key\<close> for a numeric key; \<open>None\<close> is the implicit \<^verbatim>\<open>return None\<close>.\<close>

fun first_wl_match :: "DatasetID list \<Rightarrow> pyval \<Rightarrow> error + DatasetID option" where
  "first_wl_match [] key = Inr None"
| "first_wl_match (k # ks) key =
     (if wavelength k \<noteq> PNone
      then (case wl_match (wavelength k) key of
              Inl e \<Rightarrow> Inl e
            | Inr m \<Rightarrow> if m then Inr (Some k) else first_wl_match ks key)
      else first_wl_match ks key)"

text \<open>
  A query with all five fields \<^verbatim>\<open>None\<close> passes no filter of \<^verbatim>\<open>get_keys_by_datasetid\<close>,
  which then returns \<^verbatim>\<open>self.keys()\<close> itself: under Python 3 a dictionary view, which has
  a truth value and a length but no \<^verbatim>\<open>res[0]\<close>.
\<close>

definition unfiltered :: "DatasetID \<Rightarrow> bool" where
  "unfiltered did =
     (name did = PNone \<and> wavelength did = PNone \<and> resolution did = PNone
      \<and> polarization did = PNone \<and> calibration did = PNone)"

definition get_key :: "DatasetID list \<Rightarrow> key \<Rightarrow> error + DatasetID option" where
  "get_key keys key =
     (case key of
        KId did \<Rightarrow>
          bind_err (get_keys_by_datasetid keys did)
            (\<lambda>res. if res = [] then Inr None
                    else if length res > 1 then Inl (KeyError ''No unique dataset matching'')
                    else if unfiltered did
                    then Inl (TypeError ''dict_keys object is not subscriptable'')
                    else Inr (Some (res ! 0)))
      | KVal v \<Rightarrow>
          if is_number v then first_wl_match keys v
          else Inr (find (\<lambda>k. name_match (name k) v) keys))"

text \<open>
  The optional filters of \<^verbatim>\<open>get_keys\<close>: skipped for \<^verbatim>\<open>None\<close>, a list or tuple is the
  set of accepted values, any other object is wrapped into a one-item tuple.
\<close>

definition filter_option :: "(DatasetID \<Rightarrow> pyval) \<Rightarrow> pyval \<Rightarrow> DatasetID list \<Rightarrow> DatasetID list" where
  "filter_option field arg keys =
     (if arg \<noteq> PNone
      then (let accepted = (if py_type arg = ListType \<or> py_type arg = TupleType
                            then seq_items arg else [arg])
            in filter (\<lambda>k. field k \<noteq> PNone \<and> py_in (field k) accepted) keys)
      else keys)"

definition get_keys ::
  "DatasetID list \<Rightarrow> pyval \<Rightarrow> pyval \<Rightarrow> pyval \<Rightarrow> pyval \<Rightarrow> error + DatasetID list" where
  "get_keys keys name_or_wl res pol cal =
     bind_err
       (if is_number name_or_wl
        then filter_err (\<lambda>k. wl_match (wavelength k) name_or_wl) keys
        else if is_str name_or_wl
        then Inr (filter (\<lambda>k. name_match (name k) name_or_wl) keys)
        else Inl (TypeError ''First argument must be a wavelength or name''))
       (\<lambda>keys1. Inr (filter_option calibration cal
                       (filter_option polarization pol
                          (filter_option resolution res keys1))))"

text \<open>
  A stored value is a \<^verbatim>\<open>Projectable\<close> (some data and its \<^verbatim>\<open>info\<close> dictionary) or a
  plain dictionary of metadata.  A dictionary with string keys is an association list
  in insertion order.
\<close>

type_synonym pydict = "(string \<times> pyval) list"

datatype 'p dsvalue = Projectable 'p pydict | PlainDict pydict

fun info_of :: "'p dsvalue \<Rightarrow> pydict" where
  "info_of (Projectable p d) = d"
| "info_of (PlainDict d) = d"

fun with_info :: "'p dsvalue \<Rightarrow> pydict \<Rightarrow> 'p dsvalue" where
  "with_info (Projectable p d) d' = Projectable p d'"
| "with_info (PlainDict d) d' = PlainDict d'"

text \<open>\<^verbatim>\<open>d.get(k)\<close>, \<^verbatim>\<open>k in d\<close> and \<^verbatim>\<open>d[k] = v\<close>\<close>

definition dict_get :: "pydict \<Rightarrow> string \<Rightarrow> pyval" where
  "dict_get d k = (case map_of d k of None \<Rightarrow> PNone | Some v \<Rightarrow> v)"

definition dict_has :: "pydict \<Rightarrow> string \<Rightarrow> bool" where
  "dict_has d k = (map_of d k \<noteq> None)"

fun dict_set :: "pydict \<Rightarrow> string \<Rightarrow> pyval \<Rightarrow> pydict" where
  "dict_set [] k v = [(k, v)]"
| "dict_set ((k', v') # d) k v = (if k' = k then (k', v) # d else (k', v') # dict_set d k v)"

text \<open>
  The registry itself, the underlying \<^verbatim>\<open>dict\<close>, is an association list from keys to
  values in iteration order.  \<open>dict_lookup\<close> and \<open>dict_store\<close> are the inherited
  \<^verbatim>\<open>dict.__getitem__\<close> and \<^verbatim>\<open>dict.__setitem__\<close>: keys are found by equality, storing
  under a key equal to a stored one replaces the value and keeps the stored key object.
\<close>

type_synonym 'p DatasetDict = "(DatasetID \<times> 'p dsvalue) list"

definition keys_of :: "'p DatasetDict \<Rightarrow> DatasetID list" where
  "keys_of R = map fst R"

fun dict_lookup :: "'p DatasetDict \<Rightarrow> DatasetID \<Rightarrow> 'p dsvalue option" where
  "dict_lookup [] k = None"
| "dict_lookup ((k', v') # R) k = (if id_eq k' k then Some v' else dict_lookup R k)"

fun dict_store :: "'p DatasetDict \<Rightarrow> DatasetID \<Rightarrow> 'p dsvalue \<Rightarrow> 'p DatasetDict" where
  "dict_store [] k v = [(k, v)]"
| "dict_store ((k', v') # R) k v =
     (if id_eq k' k then (k', v) # R else (k', v') # dict_store R k v)"

definition getitem :: "'p DatasetDict \<Rightarrow> key \<Rightarrow> error + 'p dsvalue" where
  "getitem R item =
     bind_err (get_key (keys_of R) item)
       (\<lambda>key. case key of
                 None \<Rightarrow> Inl (KeyError ''No dataset matching'')
               | Some k \<Rightarrow>
                   (case dict_lookup R k of
                      None \<Rightarrow> Inl (KeyError ''missing key'')
                    | Some v \<Rightarrow> Inr v))"

text \<open>
  \<^verbatim>\<open>__setitem__\<close>.  \<open>resolve_key\<close> is the part under \<^verbatim>\<open>if not isinstance(key, DatasetID)\<close>;
  \<open>update_info\<close> is the four assignments into the value's dictionary, which Python
  performs in place on the object that is then stored.
\<close>

definition resolve_key :: "DatasetID list \<Rightarrow> key \<Rightarrow> pydict \<Rightarrow> error + DatasetID" where
  "resolve_key keys key d =
     (case key of
        KId did \<Rightarrow> Inr did
      | KVal old_key \<Rightarrow>
          bind_err (get_key keys key)
            (\<lambda>found. case found of
                 Some k \<Rightarrow> Inr k
               | None \<Rightarrow>
                   (let new_name = (if is_str old_key then old_key else dict_get d ''name'');
                        k = \<lparr>name = new_name,
                             wavelength = dict_get d ''wavelength_range'',
                             resolution = dict_get d ''resolution'',
                             polarization = dict_get d ''polarization'',
                             calibration = dict_get d ''calibration''\<rparr>
                    in if name k = PNone \<and> wavelength k = PNone
                       then Inl (ValueError ''One of 'name' or 'wavelength_range' info values should be set.'')
                       else Inr k)))"

definition update_info :: "DatasetID \<Rightarrow> pydict \<Rightarrow> pydict" where
  "update_info k d =
     dict_set (dict_set (dict_set (dict_set d ''name'' (name k))
       ''resolution'' (resolution k)) ''calibration'' (calibration k))
       ''polarization'' (polarization k)"

definition setitem :: "'p DatasetDict \<Rightarrow> key \<Rightarrow> 'p dsvalue \<Rightarrow> error + 'p DatasetDict" where
  "setitem R key val =
     bind_err (resolve_key (keys_of R) key (info_of val))
       (\<lambda>k. let d = update_info k (info_of val)
            in if dict_has d ''wavelength_range''
                  \<and> \<not> py_eq (dict_get d ''wavelength_range'') (wavelength k)
               then Inl (TypeError ''Can't change the wavelength of a dataset'')
               else if \<not> id_hashable k then Inl (TypeError ''unhashable type'')
               else Inr (dict_store R k (with_info val d)))"

text \<open>The keys of a well-formed registry are hashable and pairwise unequal.\<close>

fun distinct_keys :: "DatasetID list \<Rightarrow> bool" where
  "distinct_keys [] = True"
| "distinct_keys (k # ks) = (\<not> list_ex (\<lambda>k'. id_eq k' k) ks \<and> distinct_keys ks)"

definition registry_ok :: "'p DatasetDict \<Rightarrow> bool" where
  "registry_ok R = (list_all id_hashable (keys_of R) \<and> distinct_keys (keys_of R))"


section \<open>\<^verbatim>\<open>Reader.get_dataset_key\<close>\<close>

text \<open>
  The filter of the numeric branch,
  \<^verbatim>\<open>ds.wavelength and (ds.wavelength[0] <= key <= ds.wavelength[2])\<close>, evaluated left to
  right.
\<close>

definition contains_wl :: "pyval \<Rightarrow> DatasetID \<Rightarrow> error + bool" where
  "contains_wl key ds =
     (if truthy (wavelength ds)
      then bind_err (py_index (wavelength ds) 0)
             (\<lambda>lo. bind_err (py_le lo key)
                (\<lambda>ok. if ok then bind_err (py_index (wavelength ds) 2) (\<lambda>hi. py_le key hi)
                       else Inr False))
      else Inr False)"

text \<open>
  The sort key \<^verbatim>\<open>abs(ch.wavelength[1] - key)\<close>.  Subtraction is defined on numbers: exact
  on two \<^verbatim>\<open>int\<close>s; otherwise an \<^verbatim>\<open>int\<close> operand is converted to a \<^verbatim>\<open>float\<close> and the result
  is the exact difference rounded to a \<^verbatim>\<open>float\<close>.  \<open>rnd\<close> is that rounding of a real number
  to the nearest double (integers beyond the range of a double are left out).  \<^verbatim>\<open>abs\<close>
  is exact.
\<close>

fun abs_diff :: "(real \<Rightarrow> real) \<Rightarrow> pyval \<Rightarrow> pyval \<Rightarrow> error + real" where
  "abs_diff rnd (PInt i) (PInt j) = Inr \<bar>of_int (i - j)\<bar>"
| "abs_diff rnd (PInt i) (PFloat y) = Inr \<bar>rnd (rnd (of_int i) - y)\<bar>"
| "abs_diff rnd (PFloat x) (PInt j) = Inr \<bar>rnd (x - rnd (of_int j))\<bar>"
| "abs_diff rnd (PFloat x) (PFloat y) = Inr \<bar>rnd (x - y)\<bar>"
| "abs_diff rnd _ _ = Inl (TypeError ''unsupported operand type(s) for -'')"

definition center_distance :: "(real \<Rightarrow> real) \<Rightarrow> pyval \<Rightarrow> DatasetID \<Rightarrow> error + real" where
  "center_distance rnd key ch =
     bind_err (py_index (wavelength ch) 1) (\<lambda>c. abs_diff rnd c key)"

fun map_err :: "('a \<Rightarrow> error + 'b) \<Rightarrow> 'a list \<Rightarrow> error + 'b list" where
  "map_err f [] = Inr []"
| "map_err f (x # xs) =
     (case f x of
        Inl e \<Rightarrow> Inl e
      | Inr y \<Rightarrow> (case map_err f xs of Inl e \<Rightarrow> Inl e | Inr ys \<Rightarrow> Inr (y # ys)))"

text \<open>
  \<^verbatim>\<open>sorted(xs, key=f)\<close>: the keys of all items are computed first, then the items are
  put in ascending key order by a stable sort.
\<close>

definition sorted_by_key :: "('a \<Rightarrow> error + real) \<Rightarrow> 'a list \<Rightarrow> error + 'a list" where
  "sorted_by_key f xs =
     bind_err (map_err f xs) (\<lambda>ks. Inr (map snd (sort_key fst (zip ks xs))))"

text \<open>The branches for a key that is not a \<^verbatim>\<open>DatasetID\<close>: by wavelength, else by name.\<close>

definition select_datasets ::
  "(real \<Rightarrow> real) \<Rightarrow> DatasetID list \<Rightarrow> pyval \<Rightarrow> error + DatasetID list" where
  "select_datasets rnd keys key =
     (if is_number key
      then bind_err (filter_err (contains_wl key) keys)
             (\<lambda>datasets. bind_err (sorted_by_key (center_distance rnd key) datasets)
                (\<lambda>datasets. if datasets = []
                              then Inl (KeyError ''Can't find any projectable at'')
                              else Inr datasets))
      else (let datasets = filter (\<lambda>ds_id. py_eq (name ds_id) key) keys
            in if datasets = [] then Inl (KeyError ''Can't find any projectable called'')
               else Inr datasets))"

definition default_calibration :: "pyval list" where
  "default_calibration = [PStr ''brightness_temperature'', PStr ''reflectance'']"

definition calibration_levels :: "pyval list" where
  "calibration_levels =
     [PStr ''brightness_temperature'', PStr ''reflectance'', PStr ''radiance'', PStr ''counts'']"

text \<open>
  From \<^verbatim>\<open># default calibration choices\<close> to the last \<^verbatim>\<open>raise KeyError\<close>.  The three
  optional arguments are \<open>None\<close> or a list of accepted values.
\<close>

definition narrow ::
  "DatasetID list \<Rightarrow> pyval list option \<Rightarrow> pyval list option \<Rightarrow> pyval list option
     \<Rightarrow> error + DatasetID list" where
  "narrow datasets cal res pol =
     (let cal1 = (case cal of None \<Rightarrow> default_calibration | Some c \<Rightarrow> c);
          ds1 = (case res of None \<Rightarrow> datasets
                 | Some r \<Rightarrow> filter (\<lambda>ds_id. py_in (resolution ds_id) r) datasets);
          cal2 = filter (\<lambda>x. py_in x cal1) calibration_levels;
          ds2 = filter (\<lambda>ds_id. calibration ds_id = PNone \<or> py_in (calibration ds_id) cal2) ds1;
          ds3 = (case pol of None \<Rightarrow> ds2
                 | Some p \<Rightarrow> filter (\<lambda>ds_id. py_in (polarization ds_id) p) ds2)
      in if ds3 = [] then Inl (KeyError ''Can't find any projectable matching'') else Inr ds3)"

text \<open>
  \<^verbatim>\<open>get_dataset_key(key, calibration, resolution, polarization, aslist=True)\<close>.  For a
  \<^verbatim>\<open>DatasetID\<close> the method calls itself on the name or the wavelength with the default
  arguments and then narrows by the key's own fields.
\<close>

definition get_dataset_key_aslist ::
  "(real \<Rightarrow> real) \<Rightarrow> DatasetID list \<Rightarrow> key \<Rightarrow> pyval list option \<Rightarrow> pyval list option \<Rightarrow> pyval list option
     \<Rightarrow> error + DatasetID list" where
  "get_dataset_key_aslist rnd keys key cal res pol =
     (case key of
        KVal v \<Rightarrow> bind_err (select_datasets rnd keys v) (\<lambda>datasets. narrow datasets cal res pol)
      | KId did \<Rightarrow>
          bind_err
            (if name did \<noteq> PNone
             then bind_err (select_datasets rnd keys (name did)) (\<lambda>ds. narrow ds None None None)
             else if wavelength did \<noteq> PNone
             then bind_err (select_datasets rnd keys (wavelength did)) (\<lambda>ds. narrow ds None None None)
             else Inl (KeyError ''Can't find any projectable''))
            (\<lambda>datasets. narrow datasets
               (map_option (\<lambda>c. [calibration did]) cal)
               (map_option (\<lambda>r. [resolution did]) res)
               (map_option (\<lambda>p. [polarization did]) pol)))"

text \<open>With \<^verbatim>\<open>aslist=False\<close> the result is \<^verbatim>\<open>datasets[0]\<close>.\<close>

definition get_dataset_key ::
  "(real \<Rightarrow> real) \<Rightarrow> DatasetID list \<Rightarrow> key \<Rightarrow> pyval list option \<Rightarrow> pyval list option \<Rightarrow> pyval list option
     \<Rightarrow> error + DatasetID" where
  "get_dataset_key rnd keys key cal res pol =
     bind_err (get_dataset_key_aslist rnd keys key cal res pol)
       (\<lambda>datasets. case datasets of
                      [] \<Rightarrow> Inl (IndexError ''list index out of range'')
                    | ds # rest \<Rightarrow> Inr ds)"

section \<open>Granule filter: \<^verbatim>\<open>ConfigBasedReader._get_swathsegment\<close>\<close>

text \<open>
  A per-file reader handle as far as the filter reads it: the cached \<^verbatim>\<open>start_time\<close> and
  \<^verbatim>\<open>end_time\<close> (datetimes, modelled as integer timestamps, which have the same total
  order) and \<^verbatim>\<open>ring_lonlats\<close>, where \<open>None\<close> is the base class's answer
  \<^verbatim>\<open>(None, None)\<close>.  \<open>fr_filename\<close> tells handles with equal times apart.
\<close>

record 'r file_reader =
  fr_filename :: string
  fr_start_time :: int
  fr_end_time :: int
  fr_ring_lonlats :: "'r option"

text \<open>
  The body of the \<^verbatim>\<open>for file_reader in file_readers\<close> loop for one handle: \<open>Inr True\<close>
  when the handle is appended to \<^verbatim>\<open>segment_readers\<close>, \<open>Inr False\<close> when the iteration ends
  without appending.  The polygon intersection of trollsched is the parameter
  \<open>intersects\<close>.
\<close>

definition segment_keeps ::
  "('a \<Rightarrow> 'r \<Rightarrow> bool) \<Rightarrow> 'a option \<Rightarrow> int option \<Rightarrow> int option \<Rightarrow> 'r file_reader
    \<Rightarrow> error + bool" where
  "segment_keeps intersects area start_time end_time file_reader =
     (let file_start = fr_start_time file_reader;
          file_end = fr_end_time file_reader
      in case area of
           Some contour_poly \<Rightarrow>
             (case fr_ring_lonlats file_reader of
                None \<Rightarrow> Inl (ValueError ''Granule selection by area is not supported by this reader'')
              | Some ring \<Rightarrow> Inr (intersects contour_poly ring))
         | None \<Rightarrow>
             (case start_time of
                None \<Rightarrow> Inr True
              | Some st \<Rightarrow>
                  (case end_time of
                     None \<Rightarrow> Inr (file_start \<le> st \<and> st \<le> file_end)
                   | Some et \<Rightarrow>
                       if st \<le> file_start \<and> file_start \<le> et then Inr True
                       else if st \<le> file_end \<and> file_end \<le> et then Inr True
                       else Inr False)))"

fun segment_readers ::
  "('a \<Rightarrow> 'r \<Rightarrow> bool) \<Rightarrow> 'a option \<Rightarrow> int option \<Rightarrow> int option \<Rightarrow> 'r file_reader list
    \<Rightarrow> error + 'r file_reader list" where
  "segment_readers intersects area st et [] = Inr []"
| "segment_readers intersects area st et (fr # frs) =
     (case segment_keeps intersects area st et fr of
        Inl e \<Rightarrow> Inl e
      | Inr keep \<Rightarrow>
          (case segment_readers intersects area st et frs of
             Inl e \<Rightarrow> Inl e
           | Inr kept \<Rightarrow> Inr (if keep then fr # kept else kept)))"

text \<open>
  \<^verbatim>\<open>sorted(segment_readers, key=lambda x: x.start_time)\<close>: Python's \<^verbatim>\<open>sorted\<close> is a stable
  sort, as is the insertion sort \<open>sort_key\<close>.
\<close>

definition get_swathsegment ::
  "('a \<Rightarrow> 'r \<Rightarrow> bool) \<Rightarrow> 'a option \<Rightarrow> int option \<Rightarrow> int option \<Rightarrow> 'r file_reader list
    \<Rightarrow> error + 'r file_reader list" where
  "get_swathsegment intersects area st et file_readers =
     (case segment_readers intersects area st et file_readers of
        Inl e \<Rightarrow> Inl e
      | Inr kept \<Rightarrow> Inr (sort_key fr_start_time kept))"

text \<open>The interval test of the claims, written as the specification words it.\<close>

definition in_interval :: "int \<Rightarrow> int \<Rightarrow> int \<Rightarrow> bool" where
  "in_interval st et t = (st \<le> t \<and> t \<le> et)"

definition granule :: "string \<Rightarrow> int \<Rightarrow> int \<Rightarrow> unit file_reader" where
  "granule fn s e =
     \<lparr>fr_filename = fn, fr_start_time = s, fr_end_time = e, fr_ring_lonlats = None\<rparr>"

section \<open>\<^verbatim>\<open>MultiFileReader\<close>\<close>

text \<open>
  What the multi-granule reader calls on a per-file handle.  The methods are abstract in
  \<^verbatim>\<open>GenericFileReader\<close>, so they are fields: \<open>get_shape\<close> gives the native shape of an
  item; \<open>write_swath item view\<close> is \<^verbatim>\<open>get_swath_data(item, data_out, mask_out)\<close> called
  with two views of shape \<open>view\<close> into the output buffers, \<open>Some msg\<close> when the handle
  raises; \<open>get_item\<close> is \<^verbatim>\<open>__getitem__\<close>, \<open>Inl msg\<close> when it raises.
\<close>

record 'v swath_handle =
  get_shape :: "string \<Rightarrow> nat list"
  write_swath :: "string \<Rightarrow> nat list \<Rightarrow> string option"
  get_item :: "string \<Rightarrow> string + 'v"

text \<open>\<^verbatim>\<open>[x[0] for x in granule_shapes]\<close>\<close>

fun leading_dims :: "nat list list \<Rightarrow> error + nat list" where
  "leading_dims [] = Inr []"
| "leading_dims ([] # shapes) = Inl (IndexError ''tuple index out of range'')"
| "leading_dims ((n # dims) # shapes) =
     (case leading_dims shapes of Inl e \<Rightarrow> Inl e | Inr ns \<Rightarrow> Inr (n # ns))"

text \<open>
  The copy loop.  \<open>idx\<close> is the running row offset; the handle gets the views
  \<^verbatim>\<open>data[idx: idx + granule_shape[0]]\<close>, whose row count a slice clips to the buffer, and
  whose other dimensions \<open>rest\<close> are those of the buffer.
\<close>

fun fill_granules ::
  "string \<Rightarrow> nat \<Rightarrow> nat list \<Rightarrow> nat \<Rightarrow> (nat list \<times> 'v swath_handle) list \<Rightarrow> error + nat" where
  "fill_granules item num_rows rest idx [] = Inr idx"
| "fill_granules item num_rows rest idx ((granule_shape, file_reader) # remaining) =
     (case granule_shape of
        [] \<Rightarrow> Inl (IndexError ''tuple index out of range'')
      | n # dims \<Rightarrow>
          (case write_swath file_reader item
                  ((min (idx + n) num_rows - min idx num_rows) # rest) of
             Some msg \<Rightarrow> Inl (External msg)
           | None \<Rightarrow> fill_granules item num_rows rest (idx + n) remaining))"

text \<open>
  \<^verbatim>\<open>get_swath_data\<close>: the result is the shape of the masked array that is returned (the
  shape of \<^verbatim>\<open>data\<close> and of \<^verbatim>\<open>mask\<close>).  \<open>file_keys\<close> maps an item to its \<^verbatim>\<open>FileKey\<close>.
\<close>

definition get_swath_data ::
  "(string \<times> 'k) list \<Rightarrow> 'v swath_handle list \<Rightarrow> string \<Rightarrow> string option \<Rightarrow> error + nat list" where
  "get_swath_data file_keys file_readers item filename =
     (case map_of file_keys item of
        None \<Rightarrow> Inl (KeyError item)
      | Some var_info \<Rightarrow>
          (let granule_shapes = map (\<lambda>x. get_shape x item) file_readers
           in bind_err (leading_dims granule_shapes)
                (\<lambda>rows. let num_rows = sum_list rows
                   in case granule_shapes of
                        [] \<Rightarrow> Inl (IndexError ''list index out of range'')
                      | shape0 # others \<Rightarrow>
                          (let output_shape = (if length shape0 < 2 then [num_rows]
                                               else [num_rows, last shape0])
                           in if filename \<noteq> None \<and> filename \<noteq> Some []
                              then Inl (NotImplementedError
                                     ''Saving data arrays to disk is not supported yet'')
                              else bind_err
                                     (fill_granules item num_rows (tl output_shape) 0
                                        (zip granule_shapes file_readers))
                                     (\<lambda>idx. Inr output_shape)))))"

text \<open>
  \<^verbatim>\<open>load_metadata\<close>.  \<open>np_concatenate\<close> is numpy's \<^verbatim>\<open>concatenate\<close> on the tuple of granule
  values (\<open>Inl msg\<close> when it raises) and \<open>wrap\<close> is the one-item list \<^verbatim>\<open>[fr[item]]\<close>.  The
  result \<open>None\<close> is the end of the \<^verbatim>\<open>if\<close> chain without a \<^verbatim>\<open>return\<close>.
\<close>

definition granule_items :: "'v swath_handle list \<Rightarrow> string \<Rightarrow> error + 'v list" where
  "granule_items file_readers item =
     map_err (\<lambda>fr. case get_item fr item of Inl msg \<Rightarrow> Inl (External msg) | Inr v \<Rightarrow> Inr v)
       file_readers"

definition lift_numpy :: "string + 'v \<Rightarrow> error + 'v option" where
  "lift_numpy r = (case r of Inl msg \<Rightarrow> Inl (External msg) | Inr v \<Rightarrow> Inr (Some v))"

definition join_methods :: "string list" where
  "join_methods = [''append'', ''extend_granule'', ''append_granule'', ''first'']"

definition unknown_join_method :: error where
  "unknown_join_method = ValueError ''Unknown metadata 'join_method': ''"

definition load_metadata ::
  "('v list \<Rightarrow> int \<Rightarrow> string + 'v) \<Rightarrow> ('v \<Rightarrow> 'v) \<Rightarrow> 'v swath_handle list \<Rightarrow> string \<Rightarrow> string \<Rightarrow> int
     \<Rightarrow> error + 'v option" where
  "load_metadata np_concatenate wrap file_readers item join_method axis =
     (if join_method \<notin> set join_methods then Inl unknown_join_method
      else if join_method = ''extend_granule''
      then bind_err (granule_items file_readers item) (\<lambda>vs. lift_numpy (np_concatenate vs axis))
      else if join_method = ''append_granule''
      then bind_err (granule_items file_readers item)
             (\<lambda>vs. lift_numpy (np_concatenate (map wrap vs) axis))
      else if join_method = ''append''
      then bind_err (granule_items file_readers item) (\<lambda>vs. lift_numpy (np_concatenate vs axis))
      else if join_method = ''first''
      then (case file_readers of
              [] \<Rightarrow> Inl (IndexError ''list index out of range'')
            | fr # rest \<Rightarrow>
                (case get_item fr item of Inl msg \<Rightarrow> Inl (External msg) | Inr v \<Rightarrow> Inr (Some v)))
      else Inr None)"

section \<open>\<^verbatim>\<open>ReaderFinder.get_filenames\<close>\<close>

text \<open>
  A \<^verbatim>\<open>datetime\<close> is a day number (\<^verbatim>\<open>date.toordinal()\<close>) and a time of day, ordered
  lexicographically.
\<close>

type_synonym datetime = "int \<times> nat"

definition dt_le :: "datetime \<Rightarrow> datetime \<Rightarrow> bool" where
  "dt_le a b = (fst a < fst b \<or> (fst a = fst b \<and> snd a \<le> snd b))"

definition dt_1950 :: datetime where
  "dt_1950 = (711858, 0)"

text \<open>
  The metadata that \<^verbatim>\<open>parser.parse(filename)\<close> extracts from a file name, as far as the
  method reads it; a field is \<open>None\<close> when the key is absent.
\<close>

record file_metadata =
  md_start_time :: "datetime option"
  md_end_time :: "datetime option"
  md_nominal_time :: "datetime option"

definition no_metadata :: file_metadata where
  "no_metadata = \<lparr>md_start_time = None, md_end_time = None, md_nominal_time = None\<rparr>"

text \<open>The repair of an end time that lies before the start time.\<close>

definition fix_end_time :: "file_metadata \<Rightarrow> error + file_metadata" where
  "fix_end_time metadata =
     (case md_end_time metadata of
        None \<Rightarrow> Inr metadata
      | Some end_t \<Rightarrow>
          (case md_start_time metadata of
             None \<Rightarrow> Inl (KeyError ''start_time'')
           | Some start_t \<Rightarrow>
               if \<not> dt_le start_t end_t
               then (let mdate = fst start_t; mtime = snd end_t;
                         mdate = (if mtime < snd start_t then mdate + 1 else mdate)
                     in Inr (metadata\<lparr>md_end_time := Some (mdate, mtime)\<rparr>))
               else Inr metadata))"

text \<open>
  Comparing with a start time that the file name does not give is an ordering of
  \<^verbatim>\<open>None\<close> against a \<^verbatim>\<open>datetime\<close>.
\<close>

definition opt_le :: "datetime option \<Rightarrow> datetime option \<Rightarrow> error + bool" where
  "opt_le a b =
     (case (a, b) of
        (Some x, Some y) \<Rightarrow> Inr (dt_le x y)
      | _ \<Rightarrow> Inl (TypeError ''unorderable types''))"

definition opt_between ::
  "datetime option \<Rightarrow> datetime option \<Rightarrow> datetime option \<Rightarrow> error + bool" where
  "opt_between lo x hi =
     bind_err (opt_le lo x) (\<lambda>ok. if ok then opt_le x hi else Inr False)"

text \<open>The time test on one file: \<open>Inr True\<close> when the file name is appended.\<close>

definition time_selects :: "datetime \<Rightarrow> datetime option \<Rightarrow> file_metadata \<Rightarrow> error + bool" where
  "time_selects reader_start reader_end metadata =
     (let meta_start = (case md_start_time metadata of
                          Some t \<Rightarrow> Some t | None \<Rightarrow> md_nominal_time metadata);
          meta_end = (case md_end_time metadata of Some t \<Rightarrow> t | None \<Rightarrow> dt_1950)
      in case reader_end of
           Some r_end \<Rightarrow>
             bind_err (opt_between (Some reader_start) meta_start (Some r_end))
               (\<lambda>inside. if inside then Inr True
                          else opt_between (Some reader_start) (Some meta_end) (Some r_end))
         | None \<Rightarrow>
             bind_err (if md_end_time metadata \<noteq> None
                       then opt_between meta_start (Some reader_start) (Some meta_end)
                       else Inr False)
               (\<lambda>covers. if covers then Inr True
                          else Inr (meta_start = Some reader_start)))"

text \<open>
  The inner loop over the files that the glob yields for one pattern.  \<open>parse\<close> is
  \<^verbatim>\<open>Parser(pattern).parse\<close>, with \<open>None\<close> for its \<^verbatim>\<open>ValueError\<close>.
\<close>

fun scan_files ::
  "(string \<Rightarrow> file_metadata option) \<Rightarrow> datetime \<Rightarrow> datetime option \<Rightarrow> string list \<Rightarrow> string list
     \<Rightarrow> error + string list" where
  "scan_files parse reader_start reader_end filenames [] = Inr filenames"
| "scan_files parse reader_start reader_end filenames (filename # remaining) =
     (let metadata = (case parse filename of Some m \<Rightarrow> m | None \<Rightarrow> no_metadata)
      in bind_err (fix_end_time metadata)
           (\<lambda>metadata. bind_err (time_selects reader_start reader_end metadata)
              (\<lambda>sel. scan_files parse reader_start reader_end
                        (if sel then filenames @ [filename] else filenames) remaining)))"

text \<open>
  The outer loop over the patterns.  The second component of the state is the list of
  glob patterns handed to \<^verbatim>\<open>glob.iglob\<close> so far, the only access to the file system.
  \<open>fs_glob\<close> is the file system's answer, \<open>globify\<close> is trollsift's translation of a
  pattern and the request's info into a glob pattern, \<open>path_join\<close> is \<^verbatim>\<open>os.path.join\<close>.
\<close>

fun scan_patterns ::
  "(string \<Rightarrow> string list) \<Rightarrow> (string \<Rightarrow> pydict \<Rightarrow> string) \<Rightarrow> (string \<Rightarrow> string \<Rightarrow> file_metadata option)
     \<Rightarrow> (string \<Rightarrow> string \<Rightarrow> string) \<Rightarrow> pydict \<Rightarrow> string option \<Rightarrow> datetime \<Rightarrow> datetime option
     \<Rightarrow> string list \<Rightarrow> string list \<Rightarrow> string list \<Rightarrow> (error + string list) \<times> string list" where
  "scan_patterns fs_glob globify parse path_join info base_dir reader_start reader_end
     filenames globbed [] = (Inr filenames, globbed)"
| "scan_patterns fs_glob globify parse path_join info base_dir reader_start reader_end
     filenames globbed (pattern # remaining) =
     (let pattern = (case base_dir of
                       None \<Rightarrow> pattern
                     | Some dir \<Rightarrow> if dir = [] then pattern else path_join dir pattern);
          g = globify pattern info
      in case scan_files (parse pattern) reader_start reader_end filenames (fs_glob g) of
           Inl e \<Rightarrow> (Inl e, globbed @ [g])
         | Inr filenames \<Rightarrow>
             scan_patterns fs_glob globify parse path_join info base_dir reader_start reader_end
               filenames (globbed @ [g]) remaining)"

definition ends_with :: "string \<Rightarrow> string \<Rightarrow> bool" where
  "ends_with s suffix =
     (length suffix \<le> length s \<and> drop (length s - length suffix) s = suffix)"

text \<open>
  The reader configuration as far as the method reads it: \<^verbatim>\<open>reader_info["start_time"]\<close>
  (\<open>None\<close>: no such key, \<open>Some None\<close>: the value \<^verbatim>\<open>None\<close>),
  \<^verbatim>\<open>reader_info.get("end_time")\<close> and \<^verbatim>\<open>reader_info["file_patterns"]\<close>.
\<close>

record reader_info =
  ri_start_time :: "datetime option option"
  ri_end_time :: "datetime option"
  ri_file_patterns :: "string list option"

definition start_time_required :: error where
  "start_time_required =
     ValueError ''start_time keyword required with sensor and reader keyword arguments''"

definition get_filenames ::
  "(string \<Rightarrow> string list) \<Rightarrow> (string \<Rightarrow> pydict \<Rightarrow> string) \<Rightarrow> (string \<Rightarrow> string \<Rightarrow> file_metadata option)
     \<Rightarrow> (string \<Rightarrow> string \<Rightarrow> string) \<Rightarrow> pydict \<Rightarrow> reader_info \<Rightarrow> string option
     \<Rightarrow> (error + string list) \<times> string list" where
  "get_filenames fs_glob globify parse path_join self_info reader_info base_dir =
     (let info = filter (\<lambda>(key, v). \<not> ends_with key ''_time'') self_info
      in case ri_start_time reader_info of
           None \<Rightarrow> (Inl (KeyError ''start_time''), [])
         | Some None \<Rightarrow> (Inl start_time_required, [])
         | Some (Some reader_start) \<Rightarrow>
             (case ri_file_patterns reader_info of
                None \<Rightarrow> (Inl (KeyError ''file_patterns''), [])
              | Some patterns \<Rightarrow>
                  (case scan_patterns fs_glob globify parse path_join info base_dir
                          reader_start (ri_end_time reader_info) [] [] patterns of
                     (Inl e, globbed) \<Rightarrow> (Inl e, globbed)
                   | (Inr filenames, globbed) \<Rightarrow> (Inr (sort filenames), globbed))))"

section \<open>Auxiliary notions of the properties\<close>

text \<open>
  The wavelengths of the data model: unset, a number, or a list or tuple of numbers.
\<close>

definition numeric_wavelength :: "pyval \<Rightarrow> bool" where
  "numeric_wavelength w =
     (w = PNone \<or> is_number w
      \<or> ((py_type w = TupleType \<or> py_type w = ListType) \<and> list_all is_number (seq_items w)))"

text \<open>The error of \<^verbatim>\<open>_wl_match\<close>.\<close>

definition wl_error :: error where
  "wl_error = ValueError ''Can only compare wavelengths of length 1 or 3''"

text \<open>
  \<^verbatim>\<open>reader_info.setdefault("start_time", self.info.get("start_time"))\<close> in
  \<^verbatim>\<open>_read_reader_config\<close>: the configured start time, else the one of the request.
\<close>

definition setdefault_time :: "datetime option \<Rightarrow> datetime option \<Rightarrow> datetime option" where
  "setdefault_time configured requested =
     (case configured of Some t \<Rightarrow> Some t | None \<Rightarrow> requested)"

text \<open>
  A handle with a fixed native shape whose \<^verbatim>\<open>get_swath_data\<close> never raises and which
  holds no items.
\<close>

definition mock_handle :: "nat list \<Rightarrow> unit swath_handle" where
  "mock_handle shape =
     \<lparr>get_shape = (\<lambda>item. shape), write_swath = (\<lambda>item view. None),
      get_item = (\<lambda>item. Inl ''no such item'')\<rparr>"

text \<open>
  A handle with a fixed native shape whose \<^verbatim>\<open>get_swath_data\<close> copies its data into the
  views, which numpy refuses unless the view has the native shape; it holds no items.
\<close>

definition copy_handle :: "nat list \<Rightarrow> unit swath_handle" where
  "copy_handle shape =
     \<lparr>get_shape = (\<lambda>item. shape),
      write_swath = (\<lambda>item view. if view = shape then None
                                   else Some ''could not broadcast input array''),
      get_item = (\<lambda>item. Inl ''no such item'')\<rparr>"

text \<open>
  The value of a number.
\<close>

fun num_val :: "pyval \<Rightarrow> real" where
  "num_val (PInt i) = of_int i"
| "num_val (PFloat x) = x"
| "num_val _ = 0"

text \<open>
  The operand of a float operation: an \<^verbatim>\<open>int\<close> is converted to a \<^verbatim>\<open>float\<close>.
\<close>

fun as_float :: "(real \<Rightarrow> real) \<Rightarrow> pyval \<Rightarrow> real" where
  "as_float rnd (PInt i) = rnd (of_int i)"
| "as_float rnd (PFloat x) = x"
| "as_float rnd _ = 0"

text \<open>
  The wavelengths that a reader configuration produces: unset, or a sequence
  \<^verbatim>\<open>[min, centre, max]\<close> of three numbers.
\<close>

definition interval_or_unset :: "pyval \<Rightarrow> bool" where
  "interval_or_unset w = (w = PNone \<or> (is_seq3 w \<and> list_all is_number (seq_items w)))"

text \<open>
  The interval \<^verbatim>\<open>[min, max]\<close> of a wavelength contains the number \<open>q\<close>.
\<close>

definition in_range :: "pyval \<Rightarrow> pyval \<Rightarrow> bool" where
  "in_range w q =
     (case seq_items w of
        [lo, c, hi] \<Rightarrow> num_val lo \<le> num_val q \<and> num_val q \<le> num_val hi
      | _ \<Rightarrow> False)"

text \<open>
  The distance of the wavelength centre to \<open>q\<close> as Python computes \<^verbatim>\<open>abs(centre - q)\<close>:
  exact on two \<^verbatim>\<open>int\<close>s, else the rounded difference of the two floats.
\<close>

definition computed_distance :: "(real \<Rightarrow> real) \<Rightarrow> pyval \<Rightarrow> pyval \<Rightarrow> real" where
  "computed_distance rnd w q =
     (case seq_items w of
        [lo, c, hi] \<Rightarrow>
          if py_type c = IntType \<and> py_type q = IntType then \<bar>num_val c - num_val q\<bar>
          else \<bar>rnd (as_float rnd c - as_float rnd q)\<bar>
      | _ \<Rightarrow> 0)"

text \<open>
  The rounding on operations whose exact result is a double, as in the examples below,
  whose operands are multiples of 1/4.
\<close>

definition no_rounding :: "real \<Rightarrow> real" where
  "no_rounding x = x"

text \<open>A normal form for \<^verbatim>\<open>==\<close>: every \<^verbatim>\<open>int\<close> is replaced by the \<^verbatim>\<open>float\<close> of the same value.\<close>

fun py_norm :: "pyval \<Rightarrow> pyval" and py_norm_list :: "pyval list \<Rightarrow> pyval list" where
  "py_norm (PInt i) = PFloat (of_int i)"
| "py_norm (PTuple xs) = PTuple (py_norm_list xs)"
| "py_norm (PList xs) = PList (py_norm_list xs)"
| "py_norm v = v"
| "py_norm_list [] = []"
| "py_norm_list (x # xs) = py_norm x # py_norm_list xs"

text \<open>The error of \<^verbatim>\<open>__setitem__\<close> for a wavelength that differs from the key's.\<close>

definition wavelength_conflict :: error where
  "wavelength_conflict = TypeError ''Can't change the wavelength of a dataset''"

text \<open>A key argument that is a name (a string) or a \<^verbatim>\<open>DatasetID\<close>.\<close>

definition name_or_id :: "key \<Rightarrow> bool" where
  "name_or_id key = (case key of KId did \<Rightarrow> True | KVal v \<Rightarrow> is_str v)"

text \<open>A full key: all five fields are set.\<close>

definition full_key :: "DatasetID \<Rightarrow> bool" where
  "full_key k = (name k \<noteq> PNone \<and> wavelength k \<noteq> PNone \<and> resolution k \<noteq> PNone
                 \<and> polarization k \<noteq> PNone \<and> calibration k \<noteq> PNone)"

text \<open>Example keys: channel \<^verbatim>\<open>ch1\<close> at 1000 m, polarization H, counts, with a given wavelength.\<close>

definition key_a :: "pyval \<Rightarrow> DatasetID" where
  "key_a w = \<lparr>name = PStr ''ch1'', wavelength = w, resolution = PInt 1000,
              polarization = PStr ''H'', calibration = PStr ''counts''\<rparr>"

text \<open>
  The three filters at the end of \<^verbatim>\<open>get_dataset_key\<close> on one key: resolution,
  calibration (unset, or one of the wanted levels) and polarization.
\<close>

definition accepted ::
  "pyval list option \<Rightarrow> pyval list option \<Rightarrow> pyval list option \<Rightarrow> DatasetID \<Rightarrow> bool" where
  "accepted cal res pol ds =
     ((case res of None \<Rightarrow> True | Some r \<Rightarrow> py_in (resolution ds) r)
      \<and> (calibration ds = PNone
          \<or> py_in (calibration ds)
               (filter (\<lambda>x. py_in x (case cal of None \<Rightarrow> default_calibration | Some c \<Rightarrow> c))
                  calibration_levels))
      \<and> (case pol of None \<Rightarrow> True | Some p \<Rightarrow> py_in (polarization ds) p))"

text \<open>Example keys: a band with a name, a wavelength interval and a calibration.\<close>

definition band :: "string \<Rightarrow> pyval \<Rightarrow> string \<Rightarrow> DatasetID" where
  "band n w cal = \<lparr>name = PStr n, wavelength = w, resolution = PInt 1000,
                   polarization = PNone, calibration = PStr cal\<rparr>"

section \<open>Properties of the granule filter\<close>

lemma segment_readers_interval:
  "segment_readers intersects None (Some st) (Some et) frs =
     Inr (filter (\<lambda>fr. in_interval st et (fr_start_time fr) \<or> in_interval st et (fr_end_time fr)) frs)"
  by (induction frs) (auto simp: segment_keeps_def in_interval_def Let_def)

text \<open>
  C3.  In time-interval mode (no area, start and end time given) the filter never fails
  and returns a list \<open>res\<close> with: a handle is in \<open>res\<close> iff it was given and its start
  time or its end time lies in \<open>[st, et]\<close> (bounds included); every handle is kept as
  often as it was given; \<open>res\<close> is ascending in the start time; and handles with the
  same start time stand in \<open>res\<close> in the order in which they were given.
\<close>

theorem C3_interval_filter_sorted_stable:
  "\<exists>res. get_swathsegment intersects None (Some st) (Some et) frs = Inr res
     \<and> set res = {fr \<in> set frs. in_interval st et (fr_start_time fr)
                               \<or> in_interval st et (fr_end_time fr)}
     \<and> mset res = filter_mset (\<lambda>fr. in_interval st et (fr_start_time fr)
                               \<or> in_interval st et (fr_end_time fr)) (mset frs)
     \<and> sorted (map fr_start_time res)
     \<and> (\<forall>t. filter (\<lambda>fr. fr_start_time fr = t) res =
             filter (\<lambda>fr. fr_start_time fr = t)
               (filter (\<lambda>fr. in_interval st et (fr_start_time fr)
                          \<or> in_interval st et (fr_end_time fr)) frs))"
  by (simp add: get_swathsegment_def segment_readers_interval sort_key_stable)

text \<open>
  C4.  Granules (10,20), (15,25), (30,40) with the window (12,18): the code keeps the
  second granule only.  Neither 10 nor 20 lies in [12,18], so the first granule, which
  covers the whole window, is dropped.
\<close>

theorem C4_window_example:
  "get_swathsegment intersects None (Some 12) (Some 18)
     [granule ''g1'' 10 20, granule ''g2'' 15 25, granule ''g3'' 30 40]
   = Inr [granule ''g2'' 15 25]"
  by (simp add: get_swathsegment_def segment_keeps_def granule_def Let_def)

theorem C4_first_two_counterexample:
  "get_swathsegment (\<lambda>a r. True) (None :: unit option) (Some 12) (Some 18)
     [granule ''g1'' 10 20, granule ''g2'' 15 25, granule ''g3'' 30 40]
   \<noteq> Inr [granule ''g1'' 10 20, granule ''g2'' 15 25]"
  by (simp add: get_swathsegment_def segment_keeps_def granule_def Let_def)


section \<open>Properties of wavelength matching\<close>

lemma py_le_no_ValueError:
  "py_le a b \<noteq> Inl (ValueError msg)"
  "py_le_list xs ys \<noteq> Inl (ValueError msg)"
  by (induction a b and xs ys rule: py_le_py_le_list.induct) auto

lemma chain_le_no_ValueError: "chain_le lo b hi \<noteq> Inl (ValueError msg)"
  by (auto simp: chain_le_def py_le_no_ValueError split: sum.splits)

text \<open>
  C1.  Two wavelength operands of the same Python type, in particular two length-3
  tuples or two length-3 lists, are compared by \<^verbatim>\<open>a == b\<close>: \<^verbatim>\<open>_wl_match\<close> returns that
  boolean, so \<open>False\<close> for unequal intervals.  And whenever one of the operands is a
  length-3 list or tuple, \<^verbatim>\<open>_wl_match\<close> raises no \<^verbatim>\<open>ValueError\<close>.
\<close>

theorem C1_wl_match_same_type:
  "(py_type a = py_type b \<longrightarrow> wl_match a b = Inr (py_eq a b))
   \<and> (is_seq3 a \<or> is_seq3 b \<longrightarrow> wl_match a b \<noteq> Inl (ValueError msg))"
  by (auto simp: wl_match_def chain_le_no_ValueError)

text \<open>
  C1, as stated, fails: for the unequal length-3 tuples (0.5, 0.6, 0.7) and
  (1.0, 1.5, 2.0) the result is the boolean \<open>False\<close>, not an error.
\<close>

theorem C1_unequal_intervals_counterexample:
  "is_seq3 (PTuple [PFloat 0.5, PFloat 0.6, PFloat 0.7])
   \<and> is_seq3 (PTuple [PFloat 1.0, PFloat 1.5, PFloat 2.0])
   \<and> \<not> py_eq (PTuple [PFloat 0.5, PFloat 0.6, PFloat 0.7]) (PTuple [PFloat 1.0, PFloat 1.5, PFloat 2.0])
   \<and> wl_match (PTuple [PFloat 0.5, PFloat 0.6, PFloat 0.7]) (PTuple [PFloat 1.0, PFloat 1.5, PFloat 2.0])
       = Inr False"
  by (simp add: wl_match_def)

text \<open>
  The theorem of C1 at the two intervals above.
\<close>

theorem C1_wl_match_same_type_witness:
  "wl_match (PTuple [PFloat 0.5, PFloat 0.6, PFloat 0.7]) (PTuple [PFloat 1.0, PFloat 1.5, PFloat 2.0])
     = Inr False
   \<and> wl_match (PTuple [PFloat 0.5, PFloat 0.6, PFloat 0.7]) (PTuple [PFloat 1.0, PFloat 1.5, PFloat 2.0])
     \<noteq> Inl (ValueError ''Can only compare wavelengths of length 1 or 3'')"
proof -
  let ?a = "PTuple [PFloat 0.5, PFloat 0.6, PFloat 0.7]"
  let ?b = "PTuple [PFloat 1.0, PFloat 1.5, PFloat 2.0]"
  have t: "py_type ?a = py_type ?b" by simp
  have s: "is_seq3 ?a \<or> is_seq3 ?b" by simp
  note inst = C1_wl_match_same_type [of ?a ?b "''Can only compare wavelengths of length 1 or 3''"]
  from inst t have "wl_match ?a ?b = Inr (py_eq ?a ?b)" by blast
  moreover from inst s have "wl_match ?a ?b \<noteq> Inl (ValueError ''Can only compare wavelengths of length 1 or 3'')"
    by blast
  ultimately show ?thesis by simp
qed

lemma wl_match_number:
  assumes "is_number q" "numeric_wavelength w"
  shows "wl_match w q = Inl wl_error \<or> (\<exists>b. wl_match w q = Inr b)"
proof (cases "py_type w = py_type q")
  case True
  then show ?thesis by (simp add: wl_match_def)
next
  case False
  show ?thesis
  proof (cases "is_seq3 w")
    case True
    then obtain x y z where xs: "seq_items w = [x, y, z]"
      by (cases w) (auto simp: length_Suc_conv numeral_3_eq_3)
    with assms(2) True have nx: "is_number x" "is_number z"
      by (cases w; auto simp: numeric_wavelength_def)+
    from nx assms(1) obtain b1 where b1: "py_le x q = Inr b1"
      by (cases x; cases q) auto
    from nx assms(1) obtain b2 where b2: "py_le q z = Inr b2"
      by (cases z; cases q) auto
    from False True xs b1 b2 show ?thesis
      by (auto simp: wl_match_def chain_le_def)
  next
    case nseq: False
    from assms(1) have "\<not> is_seq3 q" by (cases q) auto
    with False nseq show ?thesis by (simp add: wl_match_def wl_error_def)
  qed
qed

lemma filter_err_raises:
  assumes "\<forall>x \<in> set xs. p x = Inl e \<or> (\<exists>b. p x = Inr b)" "\<exists>x \<in> set xs. p x = Inl e"
  shows "filter_err p xs = Inl e"
  using assms
proof (induction xs)
  case Nil
  then show ?case by simp
next
  case (Cons x xs)
  show ?case
  proof (cases "p x")
    case (Inl e')
    with Cons.prems(1) have "e' = e" by auto
    with Inl show ?thesis by simp
  next
    case (Inr b)
    with Cons.prems have "\<exists>x \<in> set xs. p x = Inl e" by auto
    with Cons.IH Cons.prems(1) have "filter_err p xs = Inl e" by auto
    with Inr show ?thesis by simp
  qed
qed

text \<open>
  C10.  Operands of different Python types, neither of them a length-3 list or tuple,
  make \<^verbatim>\<open>_wl_match\<close> raise its \<^verbatim>\<open>ValueError\<close>.  Hence \<^verbatim>\<open>get_keys\<close> with a number as
  first argument raises that \<^verbatim>\<open>ValueError\<close> as soon as one stored key has the
  wavelength \<^verbatim>\<open>None\<close> (the stored wavelengths being those of the data model), whatever
  the other three arguments are.
\<close>

theorem C10_mixed_types_raise:
  "(py_type a \<noteq> py_type b \<and> \<not> is_seq3 a \<and> \<not> is_seq3 b \<longrightarrow> wl_match a b = Inl wl_error)
   \<and> (is_number q \<and> list_all (\<lambda>k. numeric_wavelength (wavelength k)) keys
        \<and> list_ex (\<lambda>k. wavelength k = PNone) keys
       \<longrightarrow> get_keys keys q res pol cal = Inl wl_error)"
proof (intro conjI impI)
  assume "py_type a \<noteq> py_type b \<and> \<not> is_seq3 a \<and> \<not> is_seq3 b"
  then show "wl_match a b = Inl wl_error" by (simp add: wl_match_def wl_error_def)
next
  assume h: "is_number q \<and> list_all (\<lambda>k. numeric_wavelength (wavelength k)) keys
        \<and> list_ex (\<lambda>k. wavelength k = PNone) keys"
  then have q: "is_number q" by simp
  from h have all: "\<forall>k \<in> set keys. wl_match (wavelength k) q = Inl wl_error
                       \<or> (\<exists>b. wl_match (wavelength k) q = Inr b)"
    using wl_match_number [OF q] by (auto simp: list_all_iff)
  from h obtain k where k: "k \<in> set keys" "wavelength k = PNone" by (auto simp: list_ex_iff)
  from q have "py_type PNone \<noteq> py_type q" "\<not> is_seq3 q" by (cases q; simp)+
  then have "wl_match PNone q = Inl wl_error" by (simp add: wl_match_def wl_error_def)
  with k have "wl_match (wavelength k) q = Inl wl_error" by simp
  with k(1) have ex: "\<exists>k \<in> set keys. wl_match (wavelength k) q = Inl wl_error" by blast
  from filter_err_raises [OF all ex] q show "get_keys keys q res pol cal = Inl wl_error"
    by (simp add: get_keys_def bind_err_def)
qed

text \<open>
  The theorem of C10 at an \<^verbatim>\<open>int\<close> against a \<^verbatim>\<open>float\<close>, and at a registry with one
  interval key and one key without wavelength.
\<close>

theorem C10_mixed_types_raise_witness:
  "wl_match (PInt 1) (PFloat 0.6) = Inl wl_error
   \<and> get_keys
        [\<lparr>name = PStr ''a'', wavelength = PTuple [PFloat 0.5, PFloat 0.6, PFloat 0.7],
          resolution = PNone, polarization = PNone, calibration = PNone\<rparr>,
         \<lparr>name = PStr ''b'', wavelength = PNone,
          resolution = PNone, polarization = PNone, calibration = PNone\<rparr>]
        (PFloat 0.6) PNone PNone PNone = Inl wl_error"
proof -
  let ?keys = "[\<lparr>name = PStr ''a'', wavelength = PTuple [PFloat 0.5, PFloat 0.6, PFloat 0.7],
          resolution = PNone, polarization = PNone, calibration = PNone\<rparr>,
         \<lparr>name = PStr ''b'', wavelength = PNone,
          resolution = PNone, polarization = PNone, calibration = PNone\<rparr>]"
  note inst = C10_mixed_types_raise [of "PInt 1" "PFloat 0.6" "PFloat 0.6" ?keys PNone PNone PNone]
  have h1: "py_type (PInt 1) \<noteq> py_type (PFloat 0.6) \<and> \<not> is_seq3 (PInt 1) \<and> \<not> is_seq3 (PFloat 0.6)"
    by simp
  have h2: "is_number (PFloat 0.6) \<and> list_all (\<lambda>k. numeric_wavelength (wavelength k)) ?keys
        \<and> list_ex (\<lambda>k. wavelength k = PNone) ?keys"
    by (simp add: numeric_wavelength_def)
  from inst h1 h2 show ?thesis by blast
qed

section \<open>Properties of the multi-granule reader and the reader finder\<close>

lemma map_err_not_ValueError:
  assumes "\<And>x. f x \<noteq> Inl (ValueError m)"
  shows "map_err f xs \<noteq> Inl (ValueError m)"
  using assms by (induction xs) (auto split: sum.splits)

lemma granule_items_external: "granule_items frs item \<noteq> Inl (ValueError m)"
  unfolding granule_items_def
  by (rule map_err_not_ValueError) (auto split: sum.splits)

lemma lift_numpy_external: "lift_numpy r \<noteq> Inl (ValueError m)"
  by (auto simp: lift_numpy_def split: sum.splits)

lemma bind_items_external:
  "bind_err (granule_items frs item) (\<lambda>vs. lift_numpy (g vs)) \<noteq> Inl (ValueError m)"
  using granule_items_external [of frs item m]
  by (auto simp: bind_err_def lift_numpy_external split: sum.splits)

text \<open>
  C8.  \<^verbatim>\<open>load_metadata\<close> ends with the error for an unknown join method iff the join
  method is none of \<^verbatim>\<open>append\<close>, \<^verbatim>\<open>extend_granule\<close>, \<^verbatim>\<open>append_granule\<close>, \<^verbatim>\<open>first\<close>,
  for every list of granules, every item and axis, and whatever numpy and the handles
  do.
\<close>

theorem C8_unknown_join_method:
  "load_metadata np_concatenate wrap file_readers item join_method axis = Inl unknown_join_method
   \<longleftrightarrow> join_method \<notin> {''append'', ''extend_granule'', ''append_granule'', ''first''}"
proof (cases "join_method \<in> set join_methods")
  case False
  then show ?thesis by (simp add: load_metadata_def join_methods_def)
next
  case True
  then have "load_metadata np_concatenate wrap file_readers item join_method axis
               \<noteq> Inl unknown_join_method"
    unfolding load_metadata_def unknown_join_method_def
    by (auto simp: bind_items_external join_methods_def split: list.splits sum.splits)
  with True show ?thesis by (auto simp: join_methods_def)
qed

text \<open>
  C9.  When neither the reader configuration nor the request sets a start time, so that
  \<^verbatim>\<open>reader_info["start_time"]\<close> is \<^verbatim>\<open>None\<close>, \<^verbatim>\<open>get_filenames\<close> raises its \<^verbatim>\<open>ValueError\<close> and
  nothing has been globbed; when the key is absent it raises \<^verbatim>\<open>KeyError\<close>, again
  before any glob.
\<close>

theorem C9_start_time_required:
  "(ri_start_time reader_info = Some (setdefault_time None None)
      \<longrightarrow> get_filenames fs_glob globify parse path_join self_info reader_info base_dir
            = (Inl start_time_required, []))
   \<and> (ri_start_time reader_info = None
      \<longrightarrow> get_filenames fs_glob globify parse path_join self_info reader_info base_dir
            = (Inl (KeyError ''start_time''), []))"
  by (simp add: get_filenames_def setdefault_time_def)

text \<open>
  The theorem of C9 at a reader configuration with two patterns and no start time.
\<close>

theorem C9_start_time_required_witness:
  "get_filenames (\<lambda>g. [g]) (\<lambda>pattern info. pattern) (\<lambda>pattern filename. None)
     (\<lambda>dir pattern. dir @ ''/'' @ pattern) []
     \<lparr>ri_start_time = Some None, ri_end_time = None,
      ri_file_patterns = Some [''a*.h5'', ''b*.h5'']\<rparr> None
   = (Inl start_time_required, [])"
proof -
  let ?ri = "\<lparr>ri_start_time = Some None, ri_end_time = None,
      ri_file_patterns = Some [''a*.h5'', ''b*.h5'']\<rparr>"
  note inst = C9_start_time_required [of ?ri "\<lambda>g. [g]" "\<lambda>pattern info. pattern"
      "\<lambda>pattern filename. None" "\<lambda>dir pattern. dir @ ''/'' @ pattern" "[]" None]
  have h: "ri_start_time ?ri = Some (setdefault_time None None)"
    by (simp add: setdefault_time_def)
  from inst h show ?thesis by blast
qed

lemma scan_patterns_globbed:
  "snd (scan_patterns fs_glob globify parse path_join info base_dir rs re fns globbed (p # ps)) \<noteq> []"
proof -
  have "\<And>fns globbed. globbed \<noteq> [] \<Longrightarrow>
      snd (scan_patterns fs_glob globify parse path_join info base_dir rs re fns globbed ps) \<noteq> []"
    by (induction ps) (auto simp: Let_def split: sum.splits)
  then show ?thesis by (auto simp: Let_def split: sum.splits)
qed

lemma snd_sort_result:
  "snd (case x of (Inl e, globbed) \<Rightarrow> (Inl e, globbed)
        | (Inr filenames, globbed) \<Rightarrow> (Inr (sort filenames), globbed)) = snd x"
  by (auto split: prod.splits sum.splits)

lemma get_filenames_globs:
  "ri_start_time reader_info = Some (Some t) \<Longrightarrow> ri_file_patterns reader_info = Some (p # ps)
   \<Longrightarrow> snd (get_filenames fs_glob globify parse path_join self_info reader_info base_dir) \<noteq> []"
  unfolding get_filenames_def Let_def
  by (simp only: option.case snd_sort_result scan_patterns_globbed not_False_eq_True)

lemma leading_dims_nonempty:
  "\<forall>s \<in> set shapes. s \<noteq> [] \<Longrightarrow> leading_dims shapes = Inr (map hd shapes)"
proof (induction shapes)
  case Nil
  then show ?case by simp
next
  case (Cons s shapes)
  then show ?case by (cases s) auto
qed

lemma fill_granules_views:
  assumes "\<forall>x \<in> set frs. get_shape x item \<noteq> []
              \<and> write_swath x item (hd (get_shape x item) # rest) = None"
    and "idx + sum_list (map (\<lambda>x. hd (get_shape x item)) frs) \<le> num_rows"
  shows "fill_granules item num_rows rest idx (zip (map (\<lambda>x. get_shape x item) frs) frs)
           = Inr (idx + sum_list (map (\<lambda>x. hd (get_shape x item)) frs))"
  using assms
proof (induction frs arbitrary: idx)
  case Nil
  then show ?case by simp
next
  case (Cons x frs)
  then obtain n dims where s: "get_shape x item = n # dims" by (cases "get_shape x item") auto
  from Cons.prems(2) s have le: "idx + n \<le> num_rows" by simp
  then have view: "min (idx + n) num_rows - min idx num_rows = n" by simp
  from Cons.prems(1) s have w: "write_swath x item (n # rest) = None" by simp
  from Cons.prems s have "fill_granules item num_rows rest (idx + n)
                            (zip (map (\<lambda>x. get_shape x item) frs) frs)
           = Inr (idx + n + sum_list (map (\<lambda>x. hd (get_shape x item)) frs))"
    by (intro Cons.IH) (simp_all add: add.assoc)
  with s view w show ?case by (simp add: add.assoc)
qed

text \<open>
  C7.  For an item with a file key, a first granule of at least two dimensions, further
  granules of at least one dimension, and handles whose \<^verbatim>\<open>get_swath_data\<close> does not
  raise on the views it is given (the rows of the granule by the trailing dimension of
  the first granule), \<^verbatim>\<open>MultiFileReader.get_swath_data\<close> returns an array of shape (sum of
  the leading dimensions, trailing dimension of the first granule).  The trailing
  dimensions of the other granules are not looked at.
\<close>

theorem C7_swath_shape:
  assumes "map_of file_keys item = Some var_info"
    and "2 \<le> length (get_shape fr item)"
    and "\<forall>x \<in> set frs. get_shape x item \<noteq> []"
    and "\<forall>x \<in> set (fr # frs).
           write_swath x item [hd (get_shape x item), last (get_shape fr item)] = None"
  shows "get_swath_data file_keys (fr # frs) item None
           = Inr [sum_list (map (\<lambda>x. hd (get_shape x item)) (fr # frs)), last (get_shape fr item)]"
proof -
  let ?rows = "sum_list (map (\<lambda>x. hd (get_shape x item)) (fr # frs))"
  from assms(2) have ne: "get_shape fr item \<noteq> []" by auto
  with assms(3) have all: "\<forall>s \<in> set (map (\<lambda>x. get_shape x item) (fr # frs)). s \<noteq> []" by auto
  have ld: "leading_dims (map (\<lambda>x. get_shape x item) (fr # frs))
              = Inr (map hd (map (\<lambda>x. get_shape x item) (fr # frs)))"
    by (rule leading_dims_nonempty [OF all])
  have fg: "fill_granules item ?rows [last (get_shape fr item)] 0
               (zip (map (\<lambda>x. get_shape x item) (fr # frs)) (fr # frs))
             = Inr (0 + ?rows)"
    by (rule fill_granules_views) (use ne assms(3,4) in auto)
  show ?thesis
    unfolding get_swath_data_def
    using assms(1,2) ld fg
    by (simp add: bind_err_def Let_def o_def del: fill_granules.simps leading_dims.simps)
qed

text \<open>
  C7, as stated, fails: for the shapes (3, 5) and (2, 6) and handles that do not raise,
  the method returns an array of shape (5, 5) instead of raising.
\<close>

theorem C7_mismatch_counterexample:
  "get_swath_data [(''bt'', ())] [mock_handle [3, 5], mock_handle [2, 6]] ''bt'' None = Inr [5, 5]"
  by (simp add: get_swath_data_def mock_handle_def bind_err_def Let_def)

text \<open>
  The theorem of C7 at two copying handles of the shapes (3, 5) and (2, 5).
\<close>

theorem C7_swath_shape_witness:
  "get_swath_data [(''bt'', ())] [copy_handle [3, 5], copy_handle [2, 5]] ''bt'' None = Inr [5, 5]"
proof -
  have "get_swath_data [(''bt'', ())] (copy_handle [3, 5] # [copy_handle [2, 5]]) ''bt'' None
          = Inr [sum_list (map (\<lambda>x. hd (get_shape x ''bt'')) (copy_handle [3, 5] # [copy_handle [2, 5]])),
                 last (get_shape (copy_handle [3, 5]) ''bt'')]"
    by (rule C7_swath_shape [where var_info = "()"]) (simp_all add: copy_handle_def)
  then show ?thesis by (simp add: copy_handle_def)
qed

text \<open>
  With copying handles of the shapes (3, 5) and (2, 6) the second handle is given a view
  of shape (2, 5) and raises: the error for a mismatch is the handle's, not the method's.
\<close>

lemma copy_handle_mismatch:
  "get_swath_data [(''bt'', ())] [copy_handle [3, 5], copy_handle [2, 6]] ''bt'' None
     = Inl (External ''could not broadcast input array'')"
  by (simp add: get_swath_data_def copy_handle_def bind_err_def Let_def)

section \<open>Properties of the registry\<close>

lemma py_eq_norm:
  "py_eq a b = (py_norm a = py_norm b)"
  "py_eq_list xs ys = (py_norm_list xs = py_norm_list ys)"
  by (induction a b and xs ys rule: py_eq_py_eq_list.induct) auto

lemma py_eq_refl: "py_eq a a"
  by (simp add: py_eq_norm)

lemma py_eq_sym: "py_eq a b \<Longrightarrow> py_eq b a"
  by (simp add: py_eq_norm)

lemma py_eq_trans: "py_eq a b \<Longrightarrow> py_eq b c \<Longrightarrow> py_eq a c"
  by (simp add: py_eq_norm)

lemma py_eq_None: "py_eq a PNone = (a = PNone)" "py_eq PNone a = (a = PNone)"
  by (cases a; simp)+

lemma id_eq_refl: "id_eq a a"
  by (simp add: id_eq_def py_eq_refl)

lemma id_eq_sym: "id_eq a b \<Longrightarrow> id_eq b a"
  by (simp add: id_eq_def py_eq_norm)

lemma id_eq_trans: "id_eq a b \<Longrightarrow> id_eq b c \<Longrightarrow> id_eq a c"
  by (simp add: id_eq_def py_eq_norm)

lemma map_of_dict_set: "map_of (dict_set d k v) = (map_of d)(k \<mapsto> v)"
  by (induction d) (auto simp: fun_eq_iff)

lemma dict_get_set: "dict_get (dict_set d k v) k' = (if k' = k then v else dict_get d k')"
  by (simp add: dict_get_def map_of_dict_set)

lemma dict_has_set: "dict_has (dict_set d k v) k' = (k' = k \<or> dict_has d k')"
  by (simp add: dict_has_def map_of_dict_set)

lemma update_info_wavelength_range:
  "dict_has (update_info k d) ''wavelength_range'' = dict_has d ''wavelength_range''"
  "dict_get (update_info k d) ''wavelength_range'' = dict_get d ''wavelength_range''"
  by (simp_all add: update_info_def dict_has_set dict_get_set)

lemma keys_of_dict_store:
  "keys_of (dict_store R k v) =
     (if list_ex (\<lambda>k'. id_eq k' k) (keys_of R) then keys_of R else keys_of R @ [k])"
  by (induction R) (auto simp: keys_of_def)

lemma find_name_append:
  "find P (xs @ [x]) = (case find P xs of Some y \<Rightarrow> Some y | None \<Rightarrow> if P x then Some x else None)"
  by (induction xs) auto

lemma setitem_name_key:
  assumes "setitem R (KVal (PStr a)) v1 = Inr R1"
  shows "\<exists>k. find (\<lambda>k. name_match (name k) (PStr a)) (keys_of R1) = Some k
            \<and> (dict_has (info_of v1) ''wavelength_range''
                 \<longrightarrow> py_eq (dict_get (info_of v1) ''wavelength_range'') (wavelength k))"
proof (cases "find (\<lambda>k. name_match (name k) (PStr a)) (keys_of R)")
  case (Some k0)
  then have mem: "k0 \<in> set (keys_of R)" by (auto simp: find_Some_iff)
  then have ex: "list_ex (\<lambda>k'. id_eq k' k0) (keys_of R)"
    by (auto simp: list_ex_iff intro: id_eq_refl)
  from assms Some have "R1 = dict_store R k0 (with_info v1 (update_info k0 (info_of v1)))"
    and chk: "dict_has (info_of v1) ''wavelength_range''
                 \<longrightarrow> py_eq (dict_get (info_of v1) ''wavelength_range'') (wavelength k0)"
    by (auto simp: setitem_def resolve_key_def get_key_def bind_err_def Let_def
          update_info_wavelength_range split: if_splits)
  with ex have "keys_of R1 = keys_of R" by (simp add: keys_of_dict_store)
  with Some chk show ?thesis by auto
next
  case None
  define k where "k = \<lparr>name = PStr a,
       wavelength = dict_get (info_of v1) ''wavelength_range'',
       resolution = dict_get (info_of v1) ''resolution'',
       polarization = dict_get (info_of v1) ''polarization'',
       calibration = dict_get (info_of v1) ''calibration''\<rparr>"
  from assms None have R1: "R1 = dict_store R k (with_info v1 (update_info k (info_of v1)))"
    by (auto simp: setitem_def resolve_key_def get_key_def bind_err_def Let_def k_def
          split: if_splits)
  from None have "\<not> list_ex (\<lambda>k'. id_eq k' k) (keys_of R)"
    by (auto simp: find_None_iff list_ex_iff id_eq_def k_def name_match_def)
  with R1 have "keys_of R1 = keys_of R @ [k]" by (simp add: keys_of_dict_store)
  with None have "find (\<lambda>k. name_match (name k) (PStr a)) (keys_of R1) = Some k"
    by (simp add: find_name_append name_match_def k_def)
  moreover have "py_eq (dict_get (info_of v1) ''wavelength_range'') (wavelength k)"
    by (simp add: k_def py_eq_refl)
  ultimately show ?thesis by auto
qed

lemma setitem_id_key:
  assumes "setitem R (KId k) v1 = Inr R1" "dict_has (info_of v1) ''wavelength_range''"
  shows "py_eq (dict_get (info_of v1) ''wavelength_range'') (wavelength k)"
  using assms
  by (auto simp: setitem_def resolve_key_def bind_err_def Let_def
        update_info_wavelength_range split: if_splits)

text \<open>
  C6.  When a value that carries a \<^verbatim>\<open>wavelength_range\<close> has been registered under a
  name (a string key, or a \<^verbatim>\<open>DatasetID\<close>), registering under the same key a value whose
  \<^verbatim>\<open>wavelength_range\<close> is different raises the \<^verbatim>\<open>TypeError\<close> of \<^verbatim>\<open>__setitem__\<close>.  And an
  insertion that succeeds leaves the stored keys, wavelengths included, as they were: it
  adds at most one key at the end.
\<close>

theorem C6_wavelength_conflict:
  "(name_or_id key \<and> setitem R key v1 = Inr R1
      \<and> dict_has (info_of v1) ''wavelength_range'' \<and> dict_has (info_of v2) ''wavelength_range''
      \<and> \<not> py_eq (dict_get (info_of v2) ''wavelength_range'') (dict_get (info_of v1) ''wavelength_range'')
     \<longrightarrow> setitem R1 key v2 = Inl wavelength_conflict)
   \<and> (setitem R key v = Inr R'
     \<longrightarrow> keys_of R' = keys_of R \<or> (\<exists>k. keys_of R' = keys_of R @ [k]))"
proof (rule conjI; rule impI)
  assume h: "name_or_id key \<and> setitem R key v1 = Inr R1
      \<and> dict_has (info_of v1) ''wavelength_range'' \<and> dict_has (info_of v2) ''wavelength_range''
      \<and> \<not> py_eq (dict_get (info_of v2) ''wavelength_range'') (dict_get (info_of v1) ''wavelength_range'')"
  show "setitem R1 key v2 = Inl wavelength_conflict"
  proof (cases key)
    case (KId did)
    with h setitem_id_key [of R did v1 R1]
    have "py_eq (dict_get (info_of v1) ''wavelength_range'') (wavelength did)" by simp
    with h have "\<not> py_eq (dict_get (info_of v2) ''wavelength_range'') (wavelength did)"
      by (auto simp: py_eq_norm)
    with h KId show ?thesis
      by (simp add: setitem_def resolve_key_def bind_err_def Let_def
          update_info_wavelength_range wavelength_conflict_def)
  next
    case (KVal val)
    with h obtain a where a: "key = KVal (PStr a)" by (cases val) (auto simp: name_or_id_def)
    with h obtain k where k: "find (\<lambda>k. name_match (name k) (PStr a)) (keys_of R1) = Some k"
      and w1: "py_eq (dict_get (info_of v1) ''wavelength_range'') (wavelength k)"
      using setitem_name_key [of R a v1 R1] by auto
    from h w1 have "\<not> py_eq (dict_get (info_of v2) ''wavelength_range'') (wavelength k)"
      by (auto simp: py_eq_norm)
    with h k a show ?thesis
      by (simp add: setitem_def resolve_key_def get_key_def bind_err_def Let_def
          update_info_wavelength_range wavelength_conflict_def)
  qed
next
  assume "setitem R key v = Inr R'"
  then obtain k val where "R' = dict_store R k val"
    by (auto simp: setitem_def bind_err_def Let_def split: sum.splits if_splits)
  then show "keys_of R' = keys_of R \<or> (\<exists>k. keys_of R' = keys_of R @ [k])"
    by (auto simp: keys_of_dict_store)
qed

text \<open>
  The theorem of C6 at the empty registry, the name \<^verbatim>\<open>ch1\<close> and the intervals
  (0.5, 0.6, 0.7) and (1.0, 1.5, 2.0).
\<close>

theorem C6_wavelength_conflict_witness:
  "setitem [] (KVal (PStr ''ch1''))
       (PlainDict [(''wavelength_range'', PTuple [PFloat 0.5, PFloat 0.6, PFloat 0.7])] :: unit dsvalue)
     = Inr [(\<lparr>name = PStr ''ch1'', wavelength = PTuple [PFloat 0.5, PFloat 0.6, PFloat 0.7],
              resolution = PNone, polarization = PNone, calibration = PNone\<rparr>,
             PlainDict [(''wavelength_range'', PTuple [PFloat 0.5, PFloat 0.6, PFloat 0.7]),
                        (''name'', PStr ''ch1''), (''resolution'', PNone),
                        (''calibration'', PNone), (''polarization'', PNone)])]
   \<and> setitem [(\<lparr>name = PStr ''ch1'', wavelength = PTuple [PFloat 0.5, PFloat 0.6, PFloat 0.7],
              resolution = PNone, polarization = PNone, calibration = PNone\<rparr>,
             PlainDict [(''wavelength_range'', PTuple [PFloat 0.5, PFloat 0.6, PFloat 0.7]),
                        (''name'', PStr ''ch1''), (''resolution'', PNone),
                        (''calibration'', PNone), (''polarization'', PNone)])]
        (KVal (PStr ''ch1''))
        (PlainDict [(''wavelength_range'', PTuple [PFloat 1.0, PFloat 1.5, PFloat 2.0])] :: unit dsvalue)
     = Inl wavelength_conflict"
proof -
  let ?w1 = "PTuple [PFloat 0.5, PFloat 0.6, PFloat 0.7]"
  let ?v1 = "PlainDict [(''wavelength_range'', ?w1)] :: unit dsvalue"
  let ?v2 = "PlainDict [(''wavelength_range'', PTuple [PFloat 1.0, PFloat 1.5, PFloat 2.0])] :: unit dsvalue"
  let ?R1 = "[(\<lparr>name = PStr ''ch1'', wavelength = ?w1,
              resolution = PNone, polarization = PNone, calibration = PNone\<rparr>,
             PlainDict [(''wavelength_range'', ?w1),
                        (''name'', PStr ''ch1''), (''resolution'', PNone),
                        (''calibration'', PNone), (''polarization'', PNone)] :: unit dsvalue)]"
  have s1: "setitem [] (KVal (PStr ''ch1'')) ?v1 = Inr ?R1"
    by (simp add: setitem_def resolve_key_def get_key_def bind_err_def Let_def keys_of_def
          update_info_def dict_get_def dict_has_def id_hashable_def)
  have h: "name_or_id (KVal (PStr ''ch1''))
      \<and> dict_has (info_of ?v1) ''wavelength_range'' \<and> dict_has (info_of ?v2) ''wavelength_range''
      \<and> \<not> py_eq (dict_get (info_of ?v2) ''wavelength_range'') (dict_get (info_of ?v1) ''wavelength_range'')"
    by (simp add: dict_has_def dict_get_def name_or_id_def)
  note inst = C6_wavelength_conflict [of "KVal (PStr ''ch1'')" "[]" ?v1 ?R1 ?v2]
  from inst s1 h have "setitem ?R1 (KVal (PStr ''ch1'')) ?v2 = Inl wavelength_conflict" by blast
  with s1 show ?thesis by simp
qed

lemma filter_err_total:
  "\<forall>x \<in> set xs. p x = Inr (q x) \<Longrightarrow> filter_err p xs = Inr (filter q xs)"
  by (induction xs) auto

lemma store_then_find:
  "distinct_keys (keys_of R) \<Longrightarrow>
   \<exists>ks. filter (\<lambda>x. id_eq x k) (keys_of (dict_store R k v)) = [ks]
         \<and> dict_lookup (dict_store R k v) ks = Some v"
proof (induction R)
  case Nil
  then show ?case by (simp add: keys_of_def id_eq_refl)
next
  case (Cons kv R)
  obtain k' v' where kv: "kv = (k', v')" by (cases kv)
  from Cons.prems kv have d: "distinct_keys (keys_of R)"
    and nk: "\<forall>x \<in> set (keys_of R). \<not> id_eq x k'"
    by (auto simp: keys_of_def list_ex_iff)
  show ?case
  proof (cases "id_eq k' k")
    case True
    have "\<forall>x \<in> set (keys_of R). \<not> id_eq x k"
    proof
      fix x assume x: "x \<in> set (keys_of R)"
      show "\<not> id_eq x k"
      proof
        assume "id_eq x k"
        with True have "id_eq x k'" by (blast intro: id_eq_trans id_eq_sym)
        with nk x show False by blast
      qed
    qed
    then have "filter (\<lambda>x. id_eq x k) (keys_of R) = []" by (simp add: filter_empty_conv)
    with True kv show ?thesis by (simp add: keys_of_def id_eq_refl)
  next
    case False
    from Cons.IH [OF d] obtain ks where
      f: "filter (\<lambda>x. id_eq x k) (keys_of (dict_store R k v)) = [ks]"
      and l: "dict_lookup (dict_store R k v) ks = Some v" by blast
    from f have "ks \<in> set (filter (\<lambda>x. id_eq x k) (keys_of (dict_store R k v)))" by simp
    then have ksk: "id_eq ks k" by simp
    have "\<not> id_eq k' ks"
    proof
      assume "id_eq k' ks"
      with ksk have "id_eq k' k" by (blast intro: id_eq_trans)
      with False show False by blast
    qed
    with False kv f l show ?thesis by (auto simp: keys_of_def)
  qed
qed

lemma filter_field_full:
  "field k \<noteq> PNone \<Longrightarrow> filter_field field k ks = filter (\<lambda>x. py_eq (field x) (field k)) ks"
  by (auto simp: filter_field_def py_eq_None intro!: filter_cong)

lemma get_keys_by_datasetid_full:
  assumes "full_key k"
    and "\<forall>x \<in> set ks. py_eq (name x) (name k) \<and> wavelength x \<noteq> PNone
            \<longrightarrow> py_type (wavelength x) = py_type (wavelength k)"
  shows "get_keys_by_datasetid ks k = Inr (filter (\<lambda>x. id_eq x k) ks)"
proof -
  let ?N = "filter (\<lambda>x. py_eq (name x) (name k)) ks"
  have "\<forall>x \<in> set ?N. (if wavelength x \<noteq> PNone then wl_match (wavelength x) (wavelength k)
                           else Inr False) = Inr (py_eq (wavelength x) (wavelength k))"
    using assms by (auto simp: wl_match_def py_eq_None full_key_def)
  then have "filter_err (\<lambda>x. if wavelength x \<noteq> PNone then wl_match (wavelength x) (wavelength k)
                               else Inr False) ?N
             = Inr (filter (\<lambda>x. py_eq (wavelength x) (wavelength k)) ?N)"
    by (rule filter_err_total)
  with assms(1) show ?thesis
    by (simp add: get_keys_by_datasetid_def filter_wavelength_def filter_field_full full_key_def
          bind_err_def id_eq_def)
qed

lemma set_keys_of_dict_store:
  "set (keys_of (dict_store R k v)) \<subseteq> insert k (set (keys_of R))"
  by (auto simp: keys_of_dict_store split: if_splits)

text \<open>
  C5.  Let \<open>k\<close> be a full key and let every stored key of the same name have no
  wavelength or a wavelength of the same Python type as that of \<open>k\<close> (all tuples, say).
  After the assignment \<^verbatim>\<open>R[k] = v\<close> has succeeded, \<^verbatim>\<open>R[k]\<close> returns \<open>v\<close>: the object that was
  assigned, whose dictionary now holds the four fields of the key.
\<close>

theorem C5_full_key_round_trip:
  assumes "registry_ok R"
    and "full_key k"
    and "\<forall>x \<in> set (keys_of R). py_eq (name x) (name k) \<and> wavelength x \<noteq> PNone
            \<longrightarrow> py_type (wavelength x) = py_type (wavelength k)"
    and "setitem R (KId k) v = Inr R1"
  shows "getitem R1 (KId k) = Inr (with_info v (update_info k (info_of v)))"
proof -
  let ?v = "with_info v (update_info k (info_of v))"
  from assms(4) have R1: "R1 = dict_store R k ?v"
    by (auto simp: setitem_def resolve_key_def bind_err_def Let_def split: if_splits)
  from assms(1) have "distinct_keys (keys_of R)" by (simp add: registry_ok_def)
  from store_then_find [OF this, of k ?v] R1 obtain ks where
    f: "filter (\<lambda>x. id_eq x k) (keys_of R1) = [ks]" and l: "dict_lookup R1 ks = Some ?v"
    by blast
  have "\<forall>x \<in> set (keys_of R1). py_eq (name x) (name k) \<and> wavelength x \<noteq> PNone
            \<longrightarrow> py_type (wavelength x) = py_type (wavelength k)"
    using assms(3) set_keys_of_dict_store [of R k ?v] R1 by auto
  from get_keys_by_datasetid_full [OF assms(2) this] f
  have "get_keys_by_datasetid (keys_of R1) k = Inr [ks]" by simp
  moreover from assms(2) have "\<not> unfiltered k" by (simp add: full_key_def unfiltered_def)
  ultimately show ?thesis using l by (simp add: getitem_def get_key_def bind_err_def)
qed

text \<open>
  C5, as stated, fails: the registry holds \<^verbatim>\<open>ch1\<close> with the interval (0.5, 0.6, 0.7);
  after assigning under the full key \<^verbatim>\<open>ch1\<close> with wavelength 0.6 both keys match the
  lookup, which raises \<^verbatim>\<open>KeyError\<close>.
\<close>

theorem C5_round_trip_counterexample:
  "registry_ok [(key_a (PTuple [PFloat 0.5, PFloat 0.6, PFloat 0.7]), PlainDict [] :: unit dsvalue)]
   \<and> full_key (key_a (PFloat 0.6))
   \<and> setitem [(key_a (PTuple [PFloat 0.5, PFloat 0.6, PFloat 0.7]), PlainDict [] :: unit dsvalue)]
        (KId (key_a (PFloat 0.6))) (PlainDict [(''units'', PStr ''K'')])
      = Inr [(key_a (PTuple [PFloat 0.5, PFloat 0.6, PFloat 0.7]), PlainDict []),
             (key_a (PFloat 0.6),
              PlainDict [(''units'', PStr ''K''), (''name'', PStr ''ch1''), (''resolution'', PInt 1000),
                         (''calibration'', PStr ''counts''), (''polarization'', PStr ''H'')])]
   \<and> getitem [(key_a (PTuple [PFloat 0.5, PFloat 0.6, PFloat 0.7]), PlainDict [] :: unit dsvalue),
             (key_a (PFloat 0.6),
              PlainDict [(''units'', PStr ''K''), (''name'', PStr ''ch1''), (''resolution'', PInt 1000),
                         (''calibration'', PStr ''counts''), (''polarization'', PStr ''H'')])]
        (KId (key_a (PFloat 0.6)))
      = Inl (KeyError ''No unique dataset matching'')"
  by (simp add: registry_ok_def keys_of_def id_hashable_def key_a_def full_key_def id_eq_def
        setitem_def resolve_key_def bind_err_def Let_def update_info_def dict_has_def dict_get_def
        getitem_def get_key_def get_keys_by_datasetid_def filter_field_def filter_wavelength_def
        wl_match_def chain_le_def)

text \<open>
  The theorem of C5 at a registry with the interval (0.5, 0.6, 0.7) and the full key of
  the same channel with the interval (1.0, 1.5, 2.0).
\<close>

theorem C5_full_key_round_trip_witness:
  "getitem [(key_a (PTuple [PFloat 0.5, PFloat 0.6, PFloat 0.7]), PlainDict [] :: unit dsvalue),
            (key_a (PTuple [PFloat 1.0, PFloat 1.5, PFloat 2.0]),
              PlainDict [(''units'', PStr ''K''), (''name'', PStr ''ch1''), (''resolution'', PInt 1000),
                         (''calibration'', PStr ''counts''), (''polarization'', PStr ''H'')])]
        (KId (key_a (PTuple [PFloat 1.0, PFloat 1.5, PFloat 2.0])))
   = Inr (PlainDict [(''units'', PStr ''K''), (''name'', PStr ''ch1''), (''resolution'', PInt 1000),
                         (''calibration'', PStr ''counts''), (''polarization'', PStr ''H'')])"
proof -
  let ?R = "[(key_a (PTuple [PFloat 0.5, PFloat 0.6, PFloat 0.7]), PlainDict [] :: unit dsvalue)]"
  let ?k = "key_a (PTuple [PFloat 1.0, PFloat 1.5, PFloat 2.0])"
  let ?v = "PlainDict [(''units'', PStr ''K'')] :: unit dsvalue"
  let ?v' = "PlainDict [(''units'', PStr ''K''), (''name'', PStr ''ch1''), (''resolution'', PInt 1000),
                         (''calibration'', PStr ''counts''), (''polarization'', PStr ''H'')] :: unit dsvalue"
  let ?R1 = "[(key_a (PTuple [PFloat 0.5, PFloat 0.6, PFloat 0.7]), PlainDict [] :: unit dsvalue),
              (?k, ?v')]"
  have a1: "registry_ok ?R"
    by (simp add: registry_ok_def keys_of_def id_hashable_def key_a_def)
  have a2: "full_key ?k" by (simp add: full_key_def key_a_def)
  have a3: "\<forall>x \<in> set (keys_of ?R). py_eq (name x) (name ?k) \<and> wavelength x \<noteq> PNone
            \<longrightarrow> py_type (wavelength x) = py_type (wavelength ?k)"
    by (simp add: keys_of_def key_a_def)
  have a4: "setitem ?R (KId ?k) ?v = Inr ?R1"
    by (simp add: setitem_def resolve_key_def bind_err_def Let_def update_info_def dict_has_def
          dict_get_def id_hashable_def key_a_def id_eq_def)
  have "getitem ?R1 (KId ?k) = Inr (with_info ?v (update_info ?k (info_of ?v)))"
    by (rule C5_full_key_round_trip [OF a1 a2 a3 a4])
  then show ?thesis by (simp add: update_info_def key_a_def)
qed

section \<open>Properties of the lookup by wavelength\<close>

lemma py_le_numbers:
  "is_number a \<Longrightarrow> is_number b \<Longrightarrow> py_le a b = Inr (num_val a \<le> num_val b)"
  by (cases a; cases b) auto

lemma abs_diff_numbers:
  "is_number c \<Longrightarrow> is_number q \<Longrightarrow>
   abs_diff rnd c q = Inr (if py_type c = IntType \<and> py_type q = IntType
                           then \<bar>num_val c - num_val q\<bar>
                           else \<bar>rnd (as_float rnd c - as_float rnd q)\<bar>)"
  by (cases c; cases q) auto

lemma interval_items:
  assumes "interval_or_unset w" "w \<noteq> PNone"
  obtains lo c hi where "seq_items w = [lo, c, hi]" "is_number lo" "is_number c" "is_number hi"
    "w = PTuple [lo, c, hi] \<or> w = PList [lo, c, hi]"
proof -
  from assms have s: "is_seq3 w" and n: "list_all is_number (seq_items w)"
    by (auto simp: interval_or_unset_def)
  from s obtain lo c hi where "seq_items w = [lo, c, hi]"
    "w = PTuple [lo, c, hi] \<or> w = PList [lo, c, hi]"
    by (cases w) (auto simp: length_Suc_conv numeral_3_eq_3)
  with n that show ?thesis by auto
qed

lemma wl_match_interval:
  assumes "is_number q" "interval_or_unset w" "w \<noteq> PNone"
  shows "wl_match w q = Inr (in_range w q)"
proof -
  from assms(2,3) obtain lo c hi where i: "seq_items w = [lo, c, hi]" "is_number lo" "is_number hi"
    "w = PTuple [lo, c, hi] \<or> w = PList [lo, c, hi]" by (rule interval_items)
  from i(4) assms(1) have t: "py_type w \<noteq> py_type q" "is_seq3 w" by (cases q; auto)+
  with i assms(1) show ?thesis
    by (auto simp: wl_match_def chain_le_def in_range_def py_le_numbers)
qed

lemma in_range_None: "\<not> in_range PNone q"
  by (simp add: in_range_def)

lemma first_wl_match_find:
  assumes "is_number q"
  shows "list_all (\<lambda>k. interval_or_unset (wavelength k)) keys \<Longrightarrow>
         first_wl_match keys q = Inr (find (\<lambda>k. in_range (wavelength k) q) keys)"
proof (induction keys)
  case Nil
  then show ?case by simp
next
  case (Cons k keys)
  show ?case
  proof (cases "wavelength k = PNone")
    case True
    with Cons show ?thesis by (simp add: in_range_None)
  next
    case False
    with Cons.prems assms have "wl_match (wavelength k) q = Inr (in_range (wavelength k) q)"
      by (intro wl_match_interval) simp_all
    with False Cons show ?thesis by simp
  qed
qed

lemma contains_wl_interval:
  assumes "is_number q" "interval_or_unset (wavelength k)"
  shows "contains_wl q k = Inr (in_range (wavelength k) q)"
proof (cases "wavelength k = PNone")
  case True
  then show ?thesis by (simp add: contains_wl_def in_range_None)
next
  case False
  with assms(2) obtain lo c hi where i: "seq_items (wavelength k) = [lo, c, hi]"
    "is_number lo" "is_number hi"
    "wavelength k = PTuple [lo, c, hi] \<or> wavelength k = PList [lo, c, hi]"
    by (rule interval_items)
  with assms(1) show ?thesis
    by (auto simp: contains_wl_def in_range_def bind_err_def py_le_numbers)
qed

lemma center_distance_interval:
  assumes "is_number q" "interval_or_unset (wavelength k)" "wavelength k \<noteq> PNone"
  shows "center_distance rnd q k = Inr (computed_distance rnd (wavelength k) q)"
proof -
  from assms(2,3) obtain lo c hi where i: "seq_items (wavelength k) = [lo, c, hi]"
    "is_number c"
    "wavelength k = PTuple [lo, c, hi] \<or> wavelength k = PList [lo, c, hi]"
    by (rule interval_items)
  with assms(1) show ?thesis
    by (auto simp: center_distance_def computed_distance_def bind_err_def abs_diff_numbers)
qed

lemma map_err_total: "\<forall>x \<in> set xs. f x = Inr (g x) \<Longrightarrow> map_err f xs = Inr (map g xs)"
  by (induction xs) auto

lemma insort_key_decorated:
  "insort_key fst (g x, x) (map (\<lambda>y. (g y, y)) ys) = map (\<lambda>y. (g y, y)) (insort_key g x ys)"
  by (induction ys) auto

lemma sort_key_decorated:
  "sort_key fst (zip (map g xs) xs) = map (\<lambda>y. (g y, y)) (sort_key g xs)"
  by (induction xs) (auto simp: insort_key_decorated)

lemma sorted_by_key_total:
  assumes "\<forall>x \<in> set xs. f x = Inr (g x)"
  shows "sorted_by_key f xs = Inr (sort_key g xs)"
  using map_err_total [OF assms]
  by (simp add: sorted_by_key_def bind_err_def sort_key_decorated o_def)

lemma sort_key_Nil_iff: "sort_key g xs = [] \<longleftrightarrow> xs = []"
  by (metis length_sort length_0_conv)

lemma narrow_filter:
  "narrow ds cal res pol =
     (if filter (accepted cal res pol) ds = []
      then Inl (KeyError ''Can't find any projectable matching'')
      else Inr (filter (accepted cal res pol) ds))"
proof -
  have "filter (accepted cal res pol) ds =
        (case pol of None \<Rightarrow> (\<lambda>xs. xs) | Some p \<Rightarrow> filter (\<lambda>d. py_in (polarization d) p))
          (filter (\<lambda>d. calibration d = PNone \<or> py_in (calibration d)
                     (filter (\<lambda>x. py_in x (case cal of None \<Rightarrow> default_calibration | Some c \<Rightarrow> c))
                        calibration_levels))
             ((case res of None \<Rightarrow> (\<lambda>xs. xs) | Some r \<Rightarrow> filter (\<lambda>d. py_in (resolution d) r)) ds))"
    by (auto simp: accepted_def split: option.splits intro!: filter_cong)
  then show ?thesis
    by (auto simp: narrow_def Let_def split: option.splits)
qed

lemma head_filter_sorted:
  assumes "filter P (sort_key g xs) = y # ys" "x \<in> set xs" "P x"
  shows "g y \<le> g x"
proof -
  have "sorted (map g (filter P (sort_key g xs)))"
    by (rule sorted_filter) simp
  with assms(1) have "\<forall>z \<in> set ys. g y \<le> g z" by simp
  moreover from assms(2,3) have "x \<in> set (filter P (sort_key g xs))" by simp
  with assms(1) have "x \<in> set (y # ys)" by simp
  ultimately show ?thesis by auto
qed

lemma select_datasets_interval:
  assumes "is_number q" "list_all (\<lambda>k. interval_or_unset (wavelength k)) keys"
  shows "select_datasets rnd keys q =
           (if filter (\<lambda>k. in_range (wavelength k) q) keys = []
            then Inl (KeyError ''Can't find any projectable at'')
            else Inr (sort_key (\<lambda>k. computed_distance rnd (wavelength k) q)
                        (filter (\<lambda>k. in_range (wavelength k) q) keys)))"
proof -
  let ?c = "filter (\<lambda>k. in_range (wavelength k) q) keys"
  from assms have "\<forall>k \<in> set keys. contains_wl q k = Inr (in_range (wavelength k) q)"
    by (auto simp: list_all_iff intro: contains_wl_interval)
  then have f: "filter_err (contains_wl q) keys = Inr ?c" by (rule filter_err_total)
  have "\<forall>k \<in> set ?c. center_distance rnd q k = Inr (computed_distance rnd (wavelength k) q)"
  proof
    fix k assume "k \<in> set ?c"
    then have "k \<in> set keys" "in_range (wavelength k) q" by auto
    with assms(2) have "interval_or_unset (wavelength k)" "wavelength k \<noteq> PNone"
      by (auto simp: list_all_iff in_range_None)
    with assms(1) show "center_distance rnd q k = Inr (computed_distance rnd (wavelength k) q)"
      by (intro center_distance_interval)
  qed
  then have s: "sorted_by_key (center_distance rnd q) ?c
                  = Inr (sort_key (\<lambda>k. computed_distance rnd (wavelength k) q) ?c)"
    by (rule sorted_by_key_total)
  from assms(1) f s show ?thesis
    by (simp add: select_datasets_def bind_err_def sort_key_Nil_iff)
qed

text \<open>
  C2.  Let \<open>q\<close> be a number and let every stored wavelength be unset or a sequence
  \<^verbatim>\<open>[min, centre, max]\<close> of three numbers.  Then \<^verbatim>\<open>DatasetDict.get_key\<close> returns the first
  stored key, in iteration order, whose interval contains \<open>q\<close>, and \<^verbatim>\<open>None\<close> if there is
  none.  \<^verbatim>\<open>Reader.get_dataset_key\<close> raises \<^verbatim>\<open>KeyError\<close> if no stored key whose interval
  contains \<open>q\<close> passes the resolution, calibration and polarization filters; otherwise
  it returns such a key, and no other such key has a smaller computed distance
  \<^verbatim>\<open>abs(centre - q)\<close>.
\<close>

theorem C2_numeric_lookup:
  assumes "is_number q"
    and "list_all (\<lambda>k. interval_or_unset (wavelength k)) keys"
  shows "get_key keys (KVal q) = Inr (find (\<lambda>k. in_range (wavelength k) q) keys)
     \<and> (if filter (\<lambda>k. in_range (wavelength k) q \<and> accepted cal res pol k) keys = []
        then \<exists>msg. get_dataset_key rnd keys (KVal q) cal res pol = Inl (KeyError msg)
        else \<exists>k. get_dataset_key rnd keys (KVal q) cal res pol = Inr k
               \<and> k \<in> set keys \<and> in_range (wavelength k) q \<and> accepted cal res pol k
               \<and> (\<forall>k' \<in> set keys. in_range (wavelength k') q \<and> accepted cal res pol k'
                     \<longrightarrow> computed_distance rnd (wavelength k) q
                           \<le> computed_distance rnd (wavelength k') q))"
proof (rule conjI)
  from assms show "get_key keys (KVal q) = Inr (find (\<lambda>k. in_range (wavelength k) q) keys)"
    by (simp add: get_key_def first_wl_match_find)
next
  let ?g = "\<lambda>k. computed_distance rnd (wavelength k) q"
  let ?c = "filter (\<lambda>k. in_range (wavelength k) q) keys"
  let ?F = "filter (accepted cal res pol) (sort_key ?g ?c)"
  have setF: "set ?F = set (filter (\<lambda>k. in_range (wavelength k) q \<and> accepted cal res pol k) keys)"
    by auto
  have res: "get_dataset_key rnd keys (KVal q) cal res pol =
          (if ?c = [] then Inl (KeyError ''Can't find any projectable at'')
           else case ?F of [] \<Rightarrow> Inl (KeyError ''Can't find any projectable matching'')
                | k # rest \<Rightarrow> Inr k)"
    by (simp add: get_dataset_key_def get_dataset_key_aslist_def bind_err_def
          select_datasets_interval [OF assms] narrow_filter split: list.splits)
  show "if filter (\<lambda>k. in_range (wavelength k) q \<and> accepted cal res pol k) keys = []
        then \<exists>msg. get_dataset_key rnd keys (KVal q) cal res pol = Inl (KeyError msg)
        else \<exists>k. get_dataset_key rnd keys (KVal q) cal res pol = Inr k
               \<and> k \<in> set keys \<and> in_range (wavelength k) q \<and> accepted cal res pol k
               \<and> (\<forall>k' \<in> set keys. in_range (wavelength k') q \<and> accepted cal res pol k'
                     \<longrightarrow> ?g k \<le> ?g k')"
  proof (cases "filter (\<lambda>k. in_range (wavelength k) q \<and> accepted cal res pol k) keys = []")
    case True
    with setF have "?F = []" by (metis set_empty)
    with res True show ?thesis by (auto split: if_splits)
  next
    case False
    with setF have "?F \<noteq> []" by (metis set_empty)
    then obtain k rest where F: "?F = k # rest" by (cases ?F) auto
    then have "k \<in> set ?F" by simp
    then have kin: "k \<in> set keys" "in_range (wavelength k) q" "accepted cal res pol k" by auto
    then have "?c \<noteq> []" by (auto simp: filter_empty_conv)
    with res F have r: "get_dataset_key rnd keys (KVal q) cal res pol = Inr k" by simp
    have "\<forall>k' \<in> set keys. in_range (wavelength k') q \<and> accepted cal res pol k'
                     \<longrightarrow> ?g k \<le> ?g k'"
    proof (intro ballI impI)
      fix k' assume "k' \<in> set keys" "in_range (wavelength k') q \<and> accepted cal res pol k'"
      then have "k' \<in> set ?c" "accepted cal res pol k'" by auto
      from head_filter_sorted [OF F this] show "?g k \<le> ?g k'" .
    qed
    with False r kin show ?thesis by auto
  qed
qed

text \<open>
  C2, as stated, fails: both intervals contain 0.75 and the centre of band \<^verbatim>\<open>b\<close> is
  0.75 itself, yet \<^verbatim>\<open>DatasetDict.get_key\<close> returns band \<^verbatim>\<open>a\<close>, the first match, and
  \<^verbatim>\<open>Reader.get_dataset_key\<close> returns band \<^verbatim>\<open>a\<close> as well, since band \<^verbatim>\<open>b\<close> is calibrated to
  radiance.
\<close>

theorem C2_closest_center_counterexample:
  "get_key [band ''a'' (PTuple [PFloat 0.5, PFloat 1, PFloat 2]) ''reflectance'',
            band ''b'' (PTuple [PFloat 0.5, PFloat 0.75, PFloat 2]) ''radiance''] (KVal (PFloat 0.75))
     = Inr (Some (band ''a'' (PTuple [PFloat 0.5, PFloat 1, PFloat 2]) ''reflectance''))
   \<and> get_dataset_key no_rounding
        [band ''a'' (PTuple [PFloat 0.5, PFloat 1, PFloat 2]) ''reflectance'',
         band ''b'' (PTuple [PFloat 0.5, PFloat 0.75, PFloat 2]) ''radiance''] (KVal (PFloat 0.75))
        None None None
     = Inr (band ''a'' (PTuple [PFloat 0.5, PFloat 1, PFloat 2]) ''reflectance'')
   \<and> in_range (PTuple [PFloat 0.5, PFloat 0.75, PFloat 2]) (PFloat 0.75)
   \<and> computed_distance no_rounding (PTuple [PFloat 0.5, PFloat 0.75, PFloat 2]) (PFloat 0.75) = 0
   \<and> computed_distance no_rounding (PTuple [PFloat 0.5, PFloat 1, PFloat 2]) (PFloat 0.75) = 0.25"
  by (simp add: get_key_def wl_match_def chain_le_def band_def get_dataset_key_def
        get_dataset_key_aslist_def select_datasets_def contains_wl_def bind_err_def
        sorted_by_key_def center_distance_def narrow_def Let_def default_calibration_def
        calibration_levels_def py_in_def in_range_def computed_distance_def no_rounding_def)

text \<open>
  The theorem of C2 at two reflectance bands whose intervals contain 0.75.
\<close>

theorem C2_numeric_lookup_witness:
  "get_key [band ''a'' (PTuple [PFloat 0.5, PFloat 1, PFloat 2]) ''reflectance'',
            band ''b'' (PTuple [PFloat 0.5, PFloat 0.75, PFloat 2]) ''reflectance''] (KVal (PFloat 0.75))
     = Inr (Some (band ''a'' (PTuple [PFloat 0.5, PFloat 1, PFloat 2]) ''reflectance''))
   \<and> (\<exists>k. get_dataset_key no_rounding
        [band ''a'' (PTuple [PFloat 0.5, PFloat 1, PFloat 2]) ''reflectance'',
         band ''b'' (PTuple [PFloat 0.5, PFloat 0.75, PFloat 2]) ''reflectance''] (KVal (PFloat 0.75))
        None None None = Inr k
        \<and> computed_distance no_rounding (wavelength k) (PFloat 0.75)
            \<le> computed_distance no_rounding (PTuple [PFloat 0.5, PFloat 0.75, PFloat 2]) (PFloat 0.75))"
proof -
  let ?a = "band ''a'' (PTuple [PFloat 0.5, PFloat 1, PFloat 2]) ''reflectance''"
  let ?b = "band ''b'' (PTuple [PFloat 0.5, PFloat 0.75, PFloat 2]) ''reflectance''"
  have n: "is_number (PFloat 0.75)" by simp
  have w: "list_all (\<lambda>k. interval_or_unset (wavelength k)) [?a, ?b]"
    by (simp add: interval_or_unset_def band_def)
  have acc: "accepted None None None ?b"
    by (simp add: accepted_def band_def default_calibration_def calibration_levels_def py_in_def)
  have rng: "in_range (wavelength ?a) (PFloat 0.75)" "in_range (wavelength ?b) (PFloat 0.75)"
    by (simp_all add: in_range_def band_def)
  note inst = C2_numeric_lookup [OF n w, of None None None no_rounding]
  from inst rng have g: "get_key [?a, ?b] (KVal (PFloat 0.75)) = Inr (Some ?a)" by simp
  from acc rng have ne: "filter (\<lambda>k. in_range (wavelength k) (PFloat 0.75) \<and> accepted None None None k)
                            [?a, ?b] \<noteq> []" by simp
  with inst obtain k where k: "get_dataset_key no_rounding [?a, ?b] (KVal (PFloat 0.75)) None None None = Inr k"
    and m: "\<forall>k' \<in> set [?a, ?b]. in_range (wavelength k') (PFloat 0.75) \<and> accepted None None None k'
               \<longrightarrow> computed_distance no_rounding (wavelength k) (PFloat 0.75)
                     \<le> computed_distance no_rounding (wavelength k') (PFloat 0.75)"
    by (auto simp del: filter.simps)
  from m acc rng have "computed_distance no_rounding (wavelength k) (PFloat 0.75)
                     \<le> computed_distance no_rounding (wavelength ?b) (PFloat 0.75)" by simp
  with g k show ?thesis by (auto simp: band_def)
qed

end
